theory Spec2Isabelle
  imports Complex_Main
begin

section \<open>Data model\<close>

text \<open>
  The documents of the two collections, as the schemas of \<^verbatim>\<open>models/Complaint\<close> and
  \<^verbatim>\<open>models/User\<close> declare them. Object ids and instants are natural numbers;
  strings are ASCII strings. An optional field is an \<open>option\<close>.
\<close>

type_synonym object_id = nat
type_synonym instant = nat

record status_event =
  se_status :: string
  se_timestamp :: instant
  se_updatedBy :: "object_id option"
  se_updatedByName :: string
  se_note :: string

record complaint =
  c_id :: object_id
  ticketId :: string
  userId :: object_id
  userName :: string
  userEmail :: string
  area :: string
  address :: string
  department :: string
  description :: string
  photo :: string
  status :: string
  statusHistory :: "status_event list"
  priority :: string
  assignedTo :: "object_id option"
  assignedToName :: "string option"
  resolution :: "string option"
  rating :: "nat option"
  feedback :: "string option"
  isDuplicate :: bool
  duplicateOf :: "string option"
  isFake :: bool
  aiRemarks :: string
  createdAt :: instant
  updatedAt :: instant

record user =
  u_id :: object_id
  u_name :: string
  u_email :: string
  u_role :: string
  u_department :: string

text \<open>The payload of the session token, \<^verbatim>\<open>req.user\<close>.\<close>

record auth_user =
  au_id :: object_id
  au_name :: string
  au_email :: string
  au_department :: string

text \<open>A reply that carries a status code and a message only.\<close>

datatype reply = Reply nat string

section \<open>Lifecycle: \<^verbatim>\<open>router.put('/complaints/:id')\<close> of the provider routes\<close>

definition findById :: "complaint list \<Rightarrow> object_id \<Rightarrow> complaint option" where
  "findById db i = find (\<lambda>d. c_id d = i) db"

text \<open>Saving a loaded document writes it over the stored document of the same id.\<close>

definition save_existing :: "complaint list \<Rightarrow> complaint \<Rightarrow> complaint list" where
  "save_existing db c = map (\<lambda>d. if c_id d = c_id c then c else d) db"

definition validTransitions :: "(string \<times> string list) list" where
  "validTransitions =
     [(''Registered'', [''Accepted'', ''Rejected'']),
      (''Accepted'', [''Working On'', ''Rejected'']),
      (''Working On'', [''Completed'']),
      (''Completed'', []),
      (''Rejected'', [])]"

text \<open>\<^verbatim>\<open>validTransitions[complaint.status] || []\<close>\<close>

definition allowed_from :: "string \<Rightarrow> string list" where
  "allowed_from s = (case map_of validTransitions s of Some a \<Rightarrow> a | None \<Rightarrow> [])"

fun join :: "string \<Rightarrow> string list \<Rightarrow> string" where
  "join sep [] = []"
| "join sep [x] = x"
| "join sep (x # y # ys) = x @ sep @ join sep (y # ys)"

text \<open>A JavaScript string is truthy when it is present and not empty.\<close>

definition truthy :: "string option \<Rightarrow> bool" where
  "truthy r = (case r of None \<Rightarrow> False | Some s \<Rightarrow> s \<noteq> [])"

definition transition_message :: "string \<Rightarrow> string \<Rightarrow> string list \<Rightarrow> string" where
  "transition_message cur tgt allowed =
     ''Cannot change status from '' @ [CHR 0x22] @ cur @ [CHR 0x22] @ '' to '' @ [CHR 0x22] @ tgt
       @ [CHR 0x22] @ ''. Allowed: ''
       @ (if join '', '' allowed = [] then ''none'' else join '', '' allowed)"

definition capacity_message :: string where
  "capacity_message =
     ''You already have an active complaint. Please complete it before accepting a new one.''"

text \<open>
  \<^verbatim>\<open>countDocuments({assignedTo: req.user.id, status: {$in: ['Accepted', 'Working On']},
  _id: {$ne: complaint._id}})\<close>
\<close>

definition activeCount :: "complaint list \<Rightarrow> object_id \<Rightarrow> object_id \<Rightarrow> nat" where
  "activeCount db uid cid =
     length (filter (\<lambda>d. assignedTo d = Some uid \<and> status d \<in> set [''Accepted'', ''Working On'']
                           \<and> c_id d \<noteq> cid) db)"

text \<open>
  The handler. The target status and the optional resolution come from the request body;
  both reads of the clock are the instant \<open>now\<close>. The notification mail that follows a
  successful save cannot change the reply (its failure is caught) and is left out.
\<close>

definition update_status ::
  "complaint list \<Rightarrow> instant \<Rightarrow> auth_user \<Rightarrow> object_id \<Rightarrow> string \<Rightarrow> string option
     \<Rightarrow> (reply + complaint) \<times> complaint list" where
  "update_status db now usr cid tgt res =
     (case findById db cid of
        None \<Rightarrow> (Inl (Reply 404 ''Complaint not found''), db)
      | Some c \<Rightarrow>
          if department c \<noteq> au_department usr
          then (Inl (Reply 403 ''Not authorized for this department''), db)
          else if tgt \<notin> set (allowed_from (status c))
          then (Inl (Reply 400 (transition_message (status c) tgt (allowed_from (status c)))), db)
          else if tgt = ''Accepted'' \<and> activeCount db (au_id usr) (c_id c) > 0
          then (Inl (Reply 400 capacity_message), db)
          else
            let c' = c\<lparr>status := tgt,
                       assignedTo := Some (au_id usr),
                       assignedToName := Some (au_name usr),
                       resolution := (if truthy res then res else resolution c),
                       updatedAt := now,
                       statusHistory := statusHistory c @
                         [\<lparr>se_status = tgt, se_timestamp = now, se_updatedBy = Some (au_id usr),
                           se_updatedByName = au_name usr,
                           se_note = (if truthy res then the res
                                      else ''Status updated to '' @ tgt)\<rparr>]\<rparr>
            in (Inr c', save_existing db c'))"

text \<open>The transition table of the specification, as a set of pairs.\<close>

definition transition_table :: "(string \<times> string) set" where
  "transition_table =
     {(''Registered'', ''Accepted''), (''Registered'', ''Rejected''),
      (''Accepted'', ''Working On''), (''Accepted'', ''Rejected''),
      (''Working On'', ''Completed'')}"



section \<open>Strings, as the JavaScript library functions treat them\<close>

text \<open>
  Texts are ASCII. \<open>toLowerCase\<close> maps the capital letters; the class \<^verbatim>\<open>\s\<close> of a regular
  expression and \<open>trim\<close> know space, tab, line feed, vertical tab, form feed and carriage
  return.
\<close>

definition lower_char :: "char \<Rightarrow> char" where
  "lower_char c =
     (let n = (of_char c :: nat) in if 65 \<le> n \<and> n \<le> 90 then char_of (n + 32) else c)"

definition toLowerCase :: "string \<Rightarrow> string" where
  "toLowerCase s = map lower_char s"

definition is_space :: "char \<Rightarrow> bool" where
  "is_space c = ((of_char c :: nat) \<in> set [32, 9, 10, 11, 12, 13])"

definition is_lower_alnum :: "char \<Rightarrow> bool" where
  "is_lower_alnum c =
     (let n = (of_char c :: nat) in (97 \<le> n \<and> n \<le> 122) \<or> (48 \<le> n \<and> n \<le> 57))"

definition trim :: "string \<Rightarrow> string" where
  "trim s = rev (dropWhile is_space (rev (dropWhile is_space s)))"

fun starts_with :: "string \<Rightarrow> string \<Rightarrow> bool" where
  "starts_with s [] = True"
| "starts_with [] (k # ks) = False"
| "starts_with (c # cs) (k # ks) = (c = k \<and> starts_with cs ks)"

text \<open>\<^verbatim>\<open>s.includes(k)\<close>: \<open>k\<close> occurs in \<open>s\<close> as a substring.\<close>

fun str_includes :: "string \<Rightarrow> string \<Rightarrow> bool" where
  "str_includes [] k = (k = [])"
| "str_includes (c # cs) k = (starts_with (c # cs) k \<or> str_includes cs k)"

text \<open>
  \<^verbatim>\<open>s.split(/\s+/)\<close>: the pieces between the runs of white space; a run at either end
  leaves an empty piece there. \<open>cur\<close> is the piece being read, reversed; \<open>insep\<close> says
  that the last character read was white space.
\<close>

fun split_ws_from :: "string \<Rightarrow> bool \<Rightarrow> string \<Rightarrow> string list" where
  "split_ws_from cur insep [] = [rev cur]"
| "split_ws_from cur insep (c # cs) =
     (if is_space c
      then (if insep then split_ws_from cur True cs else rev cur # split_ws_from [] True cs)
      else split_ws_from (c # cur) False cs)"

definition split_ws :: "string \<Rightarrow> string list" where
  "split_ws s = split_ws_from [] False s"

fun string_of_nat :: "nat \<Rightarrow> string" where
  "string_of_nat n =
     (if n < 10 then [char_of (48 + n)] else string_of_nat (n div 10) @ [char_of (48 + n mod 10)])"

declare string_of_nat.simps [simp del]

text \<open>\<^verbatim>\<open>Math.round\<close> on a number that is not negative; the doubles are read as rationals.\<close>

definition math_round :: "rat \<Rightarrow> nat" where
  "math_round x = nat \<lfloor>x + 1 / 2\<rfloor>"

section \<open>Priority: \<^verbatim>\<open>localPrioritize\<close> and \<^verbatim>\<open>prioritizeComplaint\<close>\<close>

definition Critical_keywords :: "string list" where
  "Critical_keywords =
     [''flood'', ''fire'', ''collapse'', ''collapsed'', ''accident'', ''danger'',
      ''dangerous'', ''emergency'', ''fallen'', ''burst'', ''explosion'', ''electrocution'',
      ''death'', ''dead'', ''drowning'', ''sinkhole'', ''gas leak'', ''building crack'',
      ''bridge damage'', ''short circuit'', ''live wire'', ''exposed wire'',
      ''water contamination'', ''epidemic'', ''outbreak'', ''major damage'',
      ''life threatening'', ''critical'', ''fallen tree'', ''road cave'', ''wall collapse'',
      ''roof collapse'', ''sewage overflow'']"

definition High_keywords :: "string list" where
  "High_keywords =
     [''broken'', ''pothole'', ''leak'', ''leaking'', ''sewage'', ''blocked'', ''damaged'',
      ''contaminated'', ''overflow'', ''overflowing'', ''no water'', ''no electricity'',
      ''power cut'', ''power outage'', ''blackout'', ''road damage'', ''crack'', ''cracked'',
      ''waterlogging'', ''stagnant water'', ''mosquito'', ''garbage pile'', ''dump'',
      ''illegal dumping'', ''unsafe'', ''hazard'', ''risk'', ''urgent'', ''no supply'',
      ''pipeline break'', ''main road'', ''highway'', ''bus breakdown'', ''traffic signal'',
      ''drainage block'', ''manhole open'', ''missing cover'']"

definition Medium_keywords :: "string list" where
  "Medium_keywords =
     [''not working'', ''malfunction'', ''delayed'', ''dirty'', ''slow'', ''complaint'',
      ''issue'', ''problem'', ''repair'', ''maintenance'', ''streetlight'', ''lamp'',
      ''footpath'', ''pavement'', ''speed breaker'', ''signal'', ''noise'', ''dust'',
      ''irregular'', ''faulty'', ''poor condition'', ''needs attention'', ''overdue'',
      ''pending'', ''unresolved'', ''partially'', ''intermittent'', ''sometimes'']"

definition Low_keywords :: "string list" where
  "Low_keywords =
     [''request'', ''suggestion'', ''new'', ''improvement'', ''inquiry'', ''information'',
      ''feedback'', ''install'', ''installation'', ''propose'', ''plan'', ''future'',
      ''beautification'', ''painting'', ''garden'', ''park'', ''bench'', ''sign board'',
      ''name board'', ''bus stop'', ''shelter'', ''upgrade'', ''enhance'', ''minor'']"

definition PRIORITY_KEYWORDS :: "(string \<times> string list) list" where
  "PRIORITY_KEYWORDS =
     [(''Critical'', Critical_keywords), (''High'', High_keywords),
      (''Medium'', Medium_keywords), (''Low'', Low_keywords)]"

text \<open>What one keyword hit adds to the score of its level.\<close>

definition level_weight :: "string \<Rightarrow> rat" where
  "level_weight level = (if level = ''Critical'' then 3 else if level = ''High'' then 2 else 1)"

text \<open>The inner loop: the score of one level after all its keywords.\<close>

fun add_hits :: "string \<Rightarrow> string \<Rightarrow> string list \<Rightarrow> rat \<Rightarrow> rat" where
  "add_hits text level [] score = score"
| "add_hits text level (kw # kws) score =
     add_hits text level kws (if str_includes text kw then score + level_weight level else score)"

definition keyword_scores :: "string \<Rightarrow> (string \<times> rat) list" where
  "keyword_scores text = map (\<lambda>(level, keywords). (level, add_hits text level keywords 0)) PRIORITY_KEYWORDS"

definition deptBoosts :: "(string \<times> rat) list" where
  "deptBoosts =
     [(''Electricity'', 1), (''Water Resources'', 1), (''Public Health'', 1),
      (''Roads & Highways'', 1 / 2)]"

definition boosted_scores :: "string \<Rightarrow> (string \<times> rat) list \<Rightarrow> (string \<times> rat) list" where
  "boosted_scores dept scores =
     (case map_of deptBoosts dept of
        None \<Rightarrow> scores
      | Some b \<Rightarrow>
          map (\<lambda>(level, sc). (level, if level = ''Critical'' then sc + b
                                      else if level = ''High'' then sc + b * (1 / 2) else sc)) scores)"

text \<open>
  \<^verbatim>\<open>entries.sort((a, b) => b[1] - a[1])\<close>: the sort is stable, so entries of equal score
  keep their order.
\<close>

definition sort_desc :: "('a \<times> rat) list \<Rightarrow> ('a \<times> rat) list" where
  "sort_desc xs = sort_key (\<lambda>e. - snd e) xs"

definition localPrioritize :: "string \<Rightarrow> string \<Rightarrow> string" where
  "localPrioritize descr dept =
     (let text = toLowerCase (descr @ '' '' @ dept);
          scores = boosted_scores dept (keyword_scores text);
          sorted = sort_desc scores
      in if snd (hd sorted) > 0 then fst (hd sorted) else ''Medium'')"

text \<open>
  \<open>response\<close> is what the classifier gateway returned for the priority prompt
  (\<open>None\<close> when it returned nothing).
\<close>

definition prioritizeComplaint :: "string option \<Rightarrow> string \<Rightarrow> string \<Rightarrow> string" where
  "prioritizeComplaint response descr dept =
     (if truthy response
      then (case find (\<lambda>p. str_includes (the response) p) [''Critical'', ''High'', ''Medium'', ''Low''] of
              Some p \<Rightarrow> p
            | None \<Rightarrow> localPrioritize descr dept)
      else localPrioritize descr dept)"

section \<open>Integrity filter: \<^verbatim>\<open>localDetectDuplicateOrFake\<close> and \<^verbatim>\<open>detectDuplicateOrFake\<close>\<close>

text \<open>\<^verbatim>\<open>text.toLowerCase().replace(/[^a-z0-9\s]/g, '').split(/\s+/).filter(w => w.length > 2)\<close>\<close>

definition getWords :: "string \<Rightarrow> string list" where
  "getWords text =
     filter (\<lambda>w. length w > 2)
       (split_ws (filter (\<lambda>c. is_lower_alnum c \<or> is_space c) (toLowerCase text)))"

text \<open>
  The sizes of the intersection and of the union of the two word sets; the quotient of the
  two doubles is read as a rational.
\<close>

definition jaccardSimilarity :: "string list \<Rightarrow> string list \<Rightarrow> rat" where
  "jaccardSimilarity wordsA wordsB =
     (let setA = remdups wordsA;
          setB = remdups wordsB;
          intersection = filter (\<lambda>x. x \<in> set setB) setA;
          union = remdups (setA @ setB)
      in if length union = 0 then 0 else of_nat (length intersection) / of_nat (length union))"

definition KNOWN_WORDS :: "string list" where
  "KNOWN_WORDS =
     [''the'', ''and'', ''for'', ''are'', ''but'', ''not'', ''you'', ''all'', ''can'',
      ''had'', ''her'', ''was'', ''one'', ''our'', ''out'', ''has'', ''his'', ''how'',
      ''its'', ''may'', ''who'', ''did'', ''get'', ''new'', ''now'', ''old'', ''see'',
      ''way'', ''day'', ''too'', ''any'', ''been'', ''from'', ''have'', ''here'', ''just'',
      ''like'', ''long'', ''make'', ''many'', ''more'', ''only'', ''over'', ''such'',
      ''take'', ''than'', ''them'', ''then'', ''very'', ''when'', ''come'', ''could'',
      ''into'', ''made'', ''after'', ''back'', ''also'', ''with'', ''this'', ''that'',
      ''they'', ''what'', ''will'', ''about'', ''there'', ''their'', ''which'', ''would'',
      ''other'', ''these'', ''some'', ''time'', ''being'', ''does'', ''where'', ''before'',
      ''between'', ''each'', ''even'', ''much'', ''most'', ''same'', ''still'', ''should'',
      ''through'', ''while'', ''under'', ''never'', ''every'', ''since'', ''need'', ''help'',
      ''please'', ''because'', ''near'', ''facing'', ''causing'', ''people'', ''daily'',
      ''road'', ''water'', ''street'', ''light'', ''area'', ''working'', ''broken'',
      ''damage'', ''damaged'', ''pipe'', ''pipeline'', ''drain'', ''drainage'', ''block'',
      ''blocked'', ''garbage'', ''bus'', ''power'', ''electricity'', ''supply'', ''issue'',
      ''problem'', ''repair'', ''fix'', ''fixed'', ''days'', ''weeks'', ''months'',
      ''public'', ''health'', ''safety'', ''danger'', ''dangerous'', ''flood'', ''flooded'',
      ''sewage'', ''pothole'', ''pavement'', ''footpath'', ''bridge'', ''building'',
      ''house'', ''school'', ''hospital'', ''temple'', ''church'', ''mosque'', ''park'',
      ''garden'', ''traffic'', ''signal'', ''lamp'', ''pole'', ''wire'', ''cable'', ''tank'',
      ''well'', ''bore'', ''motor'', ''pump'', ''valve'', ''meter'', ''bill'',
      ''connection'', ''complaint'', ''department'', ''office'', ''officer'', ''collector'',
      ''corporation'', ''municipality'', ''panchayat'', ''ward'', ''zone'', ''district'',
      ''village'', ''town'', ''city'', ''nagar'', ''colony'', ''layout'', ''main'',
      ''cross'', ''junction'', ''corner'', ''side'', ''front'', ''behind'', ''opposite'',
      ''next'', ''above'', ''below'', ''morning'', ''evening'', ''night'', ''today'',
      ''yesterday'', ''week'', ''month'', ''year'', ''leaking'', ''overflowing'',
      ''stagnant'', ''contaminated'', ''polluted'', ''dirty'', ''clean'', ''mosquito'',
      ''insects'', ''smell'', ''stench'', ''noise'', ''dust'', ''smoke'', ''illegal'',
      ''construction'', ''encroachment'', ''parking'', ''speed'', ''accident'', ''fallen'',
      ''tree'', ''branch'', ''fence'', ''wall'', ''gate'', ''roof'', ''floor'', ''ceiling'',
      ''window'', ''door'', ''transformer'', ''generator'', ''inverter'', ''streetlight'',
      ''manhole'', ''cover'', ''cracked'', ''collapse'', ''collapsed'', ''sinking'',
      ''eroded'', ''erosion'', ''landslide'', ''request'', ''suggestion'', ''improvement'',
      ''install'', ''installation'', ''upgrade'']"

definition isKnownWord :: "string \<Rightarrow> bool" where
  "isKnownWord w = (w \<in> set KNOWN_WORDS \<or> length w \<ge> 6)"

text \<open>
  \<^verbatim>\<open>/(.)\1{4,}/.test(text)\<close>: some character other than a line terminator stands five
  times in a row.
\<close>

fun repeatPattern :: "string \<Rightarrow> bool" where
  "repeatPattern [] = False"
| "repeatPattern (c # cs) =
     ((c \<noteq> CHR 0x0A \<and> c \<noteq> CHR 0x0D \<and> take 4 cs = replicate 4 c) \<or> repeatPattern cs)"

definition keyboardPatterns :: "string list" where
  "keyboardPatterns =
     [''asdf'', ''qwert'', ''zxcv'', ''hjkl'', ''uiop'', ''bnm'', ''wasd'', ''jkl'', ''fgh'']"

text \<open>
  \<^verbatim>\<open>(lowerText.match(keyboardPatterns) || []).length\<close> with the global flag: the matches
  are found from left to right, the first alternative that fits wins, and the search goes
  on behind the match. \<open>skip\<close> counts the characters of the last match still to pass.
\<close>

fun count_matches :: "nat \<Rightarrow> string \<Rightarrow> nat" where
  "count_matches skip [] = 0"
| "count_matches (Suc k) (c # cs) = count_matches k cs"
| "count_matches 0 (c # cs) =
     (case find (\<lambda>p. starts_with (c # cs) p) keyboardPatterns of
        Some p \<Rightarrow> Suc (count_matches (length p - 1) cs)
      | None \<Rightarrow> count_matches 0 cs)"

record verdict =
  v_isDuplicate :: bool
  v_duplicateOf :: "string option"
  v_isFake :: bool
  v_remarks :: string

definition fake_verdict :: "string \<Rightarrow> verdict" where
  "fake_verdict r = \<lparr>v_isDuplicate = False, v_duplicateOf = None, v_isFake = True, v_remarks = r\<rparr>"

text \<open>
  The first half of \<^verbatim>\<open>localDetectDuplicateOrFake\<close>: the remark of the first fake test
  that fires, in the order of the source, or \<open>None\<close> when none fires.
\<close>

definition fake_check :: "string \<Rightarrow> string option" where
  "fake_check descr =
     (let text = trim descr;
          words = getWords text;
          knownCount = length (filter isKnownWord words);
          knownRatio = (of_nat knownCount / of_nat (length words) :: rat)
      in if length text < 10 then Some ''Description too short to be a valid complaint''
         else if length words = 0 then Some ''No meaningful words found in description''
         else if repeatPattern text
           then Some ''Description contains repeated character patterns (spam)''
         else if knownRatio < 3 / 10 \<and> length words \<ge> 3
           then Some (''Description appears to be gibberish (only ''
                      @ string_of_nat (math_round (knownRatio * 100)) @ ''% recognizable words)'')
         else if count_matches 0 (toLowerCase text) \<ge> 2
           then Some ''Description appears to be keyboard-mashing / random input''
         else if length (remdups words) = 1 \<and> length words > 2
           then Some ''Description is just the same word repeated''
         else None)"


text \<open>
  The loop of the second half: the best candidate so far and its score, over the
  existing complaints in their order.
\<close>

fun best_match ::
  "string list \<Rightarrow> string \<Rightarrow> complaint list \<Rightarrow> complaint option \<times> rat \<Rightarrow> complaint option \<times> rat" where
  "best_match newWords ar [] best = best"
| "best_match newWords ar (existing # rest) (bestMatch, bestScore) =
     (if area existing \<noteq> ar then best_match newWords ar rest (bestMatch, bestScore)
      else let similarity = jaccardSimilarity newWords (getWords (description existing))
           in if similarity > bestScore then best_match newWords ar rest (Some existing, similarity)
              else best_match newWords ar rest (bestMatch, bestScore))"

definition duplicate_check :: "string \<Rightarrow> string \<Rightarrow> complaint list \<Rightarrow> verdict" where
  "duplicate_check descr ar existingComplaints =
     (case best_match (getWords descr) ar existingComplaints (None, 0) of
        (Some bestMatch, bestScore) \<Rightarrow>
          if bestScore \<ge> 6 / 10
          then \<lparr>v_isDuplicate = True, v_duplicateOf = Some (ticketId bestMatch), v_isFake = False,
                v_remarks = string_of_nat (math_round (bestScore * 100))
                  @ ''% similar to existing complaint '' @ ticketId bestMatch\<rparr>
          else \<lparr>v_isDuplicate = False, v_duplicateOf = None, v_isFake = False,
                v_remarks = ''Complaint appears valid and unique''\<rparr>
      | (None, bestScore) \<Rightarrow>
          \<lparr>v_isDuplicate = False, v_duplicateOf = None, v_isFake = False,
           v_remarks = ''Complaint appears valid and unique''\<rparr>)"

definition localDetectDuplicateOrFake ::
  "string \<Rightarrow> string \<Rightarrow> string \<Rightarrow> complaint list \<Rightarrow> verdict" where
  "localDetectDuplicateOrFake descr dept ar existingComplaints =
     (case fake_check descr of
        Some remark \<Rightarrow> fake_verdict remark
      | None \<Rightarrow> duplicate_check descr ar existingComplaints)"

text \<open>
  \<open>cloud\<close> is the verdict parsed from the answer of the classifier gateway to the
  second-opinion prompt, \<open>None\<close> when the gateway returned nothing or the answer did not
  parse.
\<close>

definition detectDuplicateOrFake ::
  "verdict option \<Rightarrow> string \<Rightarrow> string \<Rightarrow> string \<Rightarrow> complaint list \<Rightarrow> verdict" where
  "detectDuplicateOrFake cloud descr dept ar existingComplaints =
     (let localResult = localDetectDuplicateOrFake descr dept ar existingComplaints
      in if v_isFake localResult \<or> v_isDuplicate localResult then localResult
         else if length existingComplaints > 0
           then (case cloud of Some cloudResult \<Rightarrow> cloudResult | None \<Rightarrow> localResult)
         else localResult)"

section \<open>Dispatch: \<^verbatim>\<open>assignProviderForDepartment\<close>\<close>

text \<open>
  The aggregation groups the complaints in Registered, Accepted or Working On by the
  provider they are assigned to and counts each group; a provider without a group has
  load 0.
\<close>

definition activeLoad :: "complaint list \<Rightarrow> object_id \<Rightarrow> nat" where
  "activeLoad db p =
     length (filter (\<lambda>c. assignedTo c = Some p
                          \<and> status c \<in> set [''Registered'', ''Accepted'', ''Working On'']) db)"

definition providers_of :: "user list \<Rightarrow> string \<Rightarrow> user list" where
  "providers_of users dept = filter (\<lambda>u. u_role u = ''provider'' \<and> u_department u = dept) users"

definition assignProviderForDepartment ::
  "user list \<Rightarrow> complaint list \<Rightarrow> string \<Rightarrow> (user \<times> nat) option" where
  "assignProviderForDepartment users db dept =
     (let providers = providers_of users dept
      in if length providers = 0 then None
         else
           let providerLoads = sort_key snd (map (\<lambda>p. (p, activeLoad db (u_id p))) providers);
               freeProvider = find (\<lambda>p. snd p = 0) providerLoads
           in (case freeProvider of Some p \<Rightarrow> Some p | None \<Rightarrow> Some (hd providerLoads)))"

section \<open>Intake: \<^verbatim>\<open>router.post('/')\<close> of the complaint routes\<close>

record create_request =
  rq_area :: "string option"
  rq_department :: "string option"
  rq_description :: "string option"
  rq_photo :: "string option"
  rq_address :: "string option"

text \<open>
  What the handler gets from outside the engine: the reverse geocoding of the coordinates
  (address and area; \<open>None\<close> when the request has no coordinates), the department the
  image analysis names, the parsed second opinion on the integrity of the complaint, the
  answer to the priority prompt, and the ticket id and object id drawn for the new document.
\<close>

record create_env =
  ev_geo :: "(string \<times> string) option"
  ev_vision_department :: string
  ev_cloud_verdict :: "verdict option"
  ev_priority_response :: "string option"
  ev_ticketId :: string
  ev_new_id :: object_id

record create_response =
  rs_message :: string
  rs_ticketId :: string
  rs_priority :: string
  rs_isDuplicate :: bool
  rs_aiRemarks :: string
  rs_assignedTo :: "string option"
  rs_department :: string
  rs_address :: string
  rs_area :: string

text \<open>
  The replies of the handler: status 400 with a message; status 400 with a message and the
  remarks of the integrity filter (\<^verbatim>\<open>isFake: true\<close>); status 500; status 201.
\<close>

datatype create_reply =
    BadRequest string
  | FakeRejected string string
  | ServerError
  | Created create_response

definition status_code :: "create_reply \<Rightarrow> nat" where
  "status_code r =
     (case r of BadRequest m \<Rightarrow> 400 | FakeRejected m remarks \<Rightarrow> 400 | ServerError \<Rightarrow> 500
              | Created resp \<Rightarrow> 201)"

definition department_enum :: "string list" where
  "department_enum =
     [''Water Resources'', ''Electricity'', ''Roads & Highways'', ''Sanitation'', ''Public Health'',
      ''Education'', ''Transport'', ''Revenue'', ''Agriculture'', ''General'']"

text \<open>
  Saving a new document: the schema refuses a department outside its enumeration and the
  unique indexes refuse a ticket id or an object id that is taken; the handler answers
  either with status 500.
\<close>

definition save_new :: "complaint list \<Rightarrow> complaint \<Rightarrow> complaint list option" where
  "save_new db c =
     (if department c \<notin> set department_enum then None
      else if ticketId c \<in> set (map ticketId db) \<or> c_id c \<in> set (map c_id db) then None
      else Some (db @ [c]))"

definition or_else :: "string option \<Rightarrow> string \<Rightarrow> string" where
  "or_else v d = (if truthy v then the v else d)"

text \<open>\<^verbatim>\<open>`Flagged as duplicate of ${duplicateCheck.duplicateOf}`\<close>\<close>

definition show_nullable :: "string option \<Rightarrow> string" where
  "show_nullable v = (case v of None \<Rightarrow> ''null'' | Some s \<Rightarrow> s)"

text \<open>
  The first steps of the handler, named so that they can be spoken about: the address and
  the area after the geocoding, the department after the image analysis, the complaints
  handed to the integrity filter, and its verdict.
\<close>

definition resolved_address :: "create_env \<Rightarrow> create_request \<Rightarrow> string option" where
  "resolved_address env rq =
     (case ev_geo env of
        Some (a, ar) \<Rightarrow> if \<not> truthy (rq_address rq) \<and> a \<noteq> [] then Some a else rq_address rq
      | None \<Rightarrow> rq_address rq)"

definition resolved_area :: "create_env \<Rightarrow> create_request \<Rightarrow> string" where
  "resolved_area env rq =
     or_else (case ev_geo env of
                Some (a, ar) \<Rightarrow> if \<not> truthy (rq_area rq) \<and> ar \<noteq> [] then Some ar else rq_area rq
              | None \<Rightarrow> rq_area rq) ''Unknown''"

definition resolved_department :: "create_env \<Rightarrow> create_request \<Rightarrow> string" where
  "resolved_department env rq = or_else (rq_department rq) (ev_vision_department env)"

definition existing_for :: "complaint list \<Rightarrow> string \<Rightarrow> complaint list" where
  "existing_for db dept = take 20 (filter (\<lambda>d. department d = dept \<and> status d \<noteq> ''Rejected'') db)"

definition integrity_verdict :: "complaint list \<Rightarrow> create_env \<Rightarrow> create_request \<Rightarrow> verdict" where
  "integrity_verdict db env rq =
     detectDuplicateOrFake (ev_cloud_verdict env) (the (rq_description rq))
       (resolved_department env rq) (resolved_area env rq)
       (existing_for db (resolved_department env rq))"

text \<open>
  The provider for the new complaint: the balancer is asked only when the complaint is not
  flagged as a duplicate.
\<close>

definition assignedProvider ::
  "user list \<Rightarrow> complaint list \<Rightarrow> create_env \<Rightarrow> create_request \<Rightarrow> (user \<times> nat) option" where
  "assignedProvider users db env rq =
     (let isRejected = v_isDuplicate (integrity_verdict db env rq)
      in if \<not> isRejected then assignProviderForDepartment users db (resolved_department env rq)
         else None)"

text \<open>
  The document the handler builds, \<^verbatim>\<open>complaintData\<close> with the assignment added. The
  coordinates are stored as they come and are left out.
\<close>

definition complaintData ::
  "user list \<Rightarrow> complaint list \<Rightarrow> instant \<Rightarrow> auth_user \<Rightarrow> create_env \<Rightarrow> create_request
     \<Rightarrow> complaint" where
  "complaintData users db now usr env rq =
     (let duplicateCheck = integrity_verdict db env rq;
          isRejected = v_isDuplicate duplicateCheck
      in \<lparr>c_id = ev_new_id env,
          ticketId = ev_ticketId env,
          userId = au_id usr,
          userName = (if au_name usr \<noteq> [] then au_name usr else ''Unknown''),
          userEmail = (if au_email usr \<noteq> [] then au_email usr else ''unknown@email.com''),
          area = resolved_area env rq,
          address = or_else (resolved_address env rq) [],
          department = resolved_department env rq,
          description = the (rq_description rq),
          photo = the (rq_photo rq),
          status = (if isRejected then ''Rejected'' else ''Registered''),
          statusHistory =
            [\<lparr>se_status = (if isRejected then ''Rejected'' else ''Registered''),
              se_timestamp = now,
              se_updatedBy = None,
              se_updatedByName = ''System'',
              se_note = (if isRejected
                         then ''Flagged as duplicate of ''
                                @ show_nullable (v_duplicateOf duplicateCheck)
                         else ''Complaint registered successfully'')\<rparr>],
          priority = prioritizeComplaint (ev_priority_response env) (the (rq_description rq))
                       (resolved_department env rq),
          assignedTo = map_option (\<lambda>p. u_id (fst p)) (assignedProvider users db env rq),
          assignedToName = map_option (\<lambda>p. u_name (fst p)) (assignedProvider users db env rq),
          resolution = None,
          rating = None,
          feedback = None,
          isDuplicate = v_isDuplicate duplicateCheck,
          duplicateOf = v_duplicateOf duplicateCheck,
          isFake = False,
          aiRemarks = v_remarks duplicateCheck,
          createdAt = now,
          updatedAt = now\<rparr>)"

definition responseData ::
  "user list \<Rightarrow> complaint list \<Rightarrow> create_env \<Rightarrow> create_request \<Rightarrow> complaint \<Rightarrow> create_response" where
  "responseData users db env rq c =
     (let duplicateCheck = integrity_verdict db env rq
      in \<lparr>rs_message =
            (if v_isDuplicate duplicateCheck
             then ''Complaint flagged as potential duplicate of ''
                    @ show_nullable (v_duplicateOf duplicateCheck)
             else ''Complaint registered successfully''),
          rs_ticketId = ticketId c,
          rs_priority = priority c,
          rs_isDuplicate = isDuplicate c,
          rs_aiRemarks = aiRemarks c,
          rs_assignedTo = map_option (\<lambda>p. u_name (fst p)) (assignedProvider users db env rq),
          rs_department = department c,
          rs_address = address c,
          rs_area = area c\<rparr>)"

text \<open>
  The handler. The mail to the assigned provider cannot change the reply and is left out.
\<close>

definition create_complaint ::
  "user list \<Rightarrow> complaint list \<Rightarrow> instant \<Rightarrow> auth_user \<Rightarrow> create_env \<Rightarrow> create_request
     \<Rightarrow> create_reply \<times> complaint list" where
  "create_complaint users db now usr env rq =
     (if \<not> truthy (rq_photo rq)
        then (BadRequest ''Photo is required. Please take a live photo.'', db)
      else if \<not> truthy (rq_description rq) then (BadRequest ''Description is required.'', db)
      else
        let duplicateCheck = integrity_verdict db env rq
        in if v_isFake duplicateCheck
           then (FakeRejected
                   (''This complaint appears to be invalid or fake. AI Remarks: ''
                      @ v_remarks duplicateCheck)
                   (v_remarks duplicateCheck), db)
           else
             let complaint = complaintData users db now usr env rq
             in (case save_new db complaint of
                   None \<Rightarrow> (ServerError, db)
                 | Some db' \<Rightarrow> (Created (responseData users db env rq complaint), db')))"

section \<open>Rating: \<^verbatim>\<open>router.put('/:id/rate')\<close> of the complaint routes\<close>

definition rate_complaint ::
  "complaint list \<Rightarrow> instant \<Rightarrow> auth_user \<Rightarrow> object_id \<Rightarrow> nat \<Rightarrow> string option
     \<Rightarrow> (reply + nat \<times> string option) \<times> complaint list" where
  "rate_complaint db now usr cid rt fb =
     (if rt < 1 \<or> rt > 5 then (Inl (Reply 400 ''Rating must be between 1 and 5''), db)
      else case findById db cid of
        None \<Rightarrow> (Inl (Reply 404 ''Complaint not found''), db)
      | Some c \<Rightarrow>
          if userId c \<noteq> au_id usr then (Inl (Reply 403 ''You can only rate your own complaints''), db)
          else if status c \<noteq> ''Completed''
            then (Inl (Reply 400 ''Can only rate completed complaints''), db)
          else if rating c \<noteq> None
            then (Inl (Reply 400 ''You have already rated this complaint''), db)
          else (Inr (rt, fb),
                save_existing db (c\<lparr>rating := Some rt, feedback := Some (or_else fb []),
                                     updatedAt := now\<rparr>)))"

text \<open>
  The stores the three handlers that write complaints can produce, from the empty
  collection. (The management routes write users only.)
\<close>

inductive reachable :: "complaint list \<Rightarrow> bool" where
  reach_empty: "reachable []"
| reach_create: "reachable db \<Longrightarrow> reachable (snd (create_complaint users db now usr env rq))"
| reach_update: "reachable db \<Longrightarrow> reachable (snd (update_status db now usr cid tgt res))"
| reach_rate: "reachable db \<Longrightarrow> reachable (snd (rate_complaint db now usr cid rt fb))"

section \<open>Department detector: \<^verbatim>\<open>mapToDepartment\<close>\<close>

definition water_resources_keywords :: "string list" where
  "water_resources_keywords =
     [''water'', ''pipe'', ''pipeline'', ''flood'', ''flooding'', ''drain'', ''drainage'',
      ''sewage'', ''sewer'', ''leak'', ''leaking'', ''plumbing'', ''tap'', ''faucet'',
      ''water supply'', ''borewell'', ''well'', ''tank'', ''overhead tank'', ''pump'',
      ''waterlogging'', ''stagnant water'', ''canal'', ''river'', ''pond'', ''reservoir'',
      ''water contamination'', ''dirty water'', ''water body'', ''puddle'',
      ''swimming pool'', ''moisture'', ''wet'', ''liquid'', ''fluid'', ''sprinkler'',
      ''hydrant'', ''valve'', ''water pipe'', ''water tank'', ''water damage'',
      ''water overflow'']"

definition electricity_keywords :: "string list" where
  "electricity_keywords =
     [''electric'', ''electricity'', ''wire'', ''wiring'', ''cable'', ''power line'',
      ''transformer'', ''pole'', ''power pole'', ''utility pole'', ''streetlight'',
      ''street light'', ''lamp'', ''lamp post'', ''bulb'', ''light'', ''lighting'',
      ''electric pole'', ''power outage'', ''blackout'', ''short circuit'', ''electrical'',
      ''voltage'', ''current'', ''generator'', ''inverter'', ''circuit breaker'', ''meter'',
      ''electric meter'', ''fuse'', ''switch'', ''overhead line'', ''high tension'',
      ''conductor'', ''insulator'', ''power grid'', ''substation'', ''energy'', ''neon'',
      ''fluorescent'', ''led'', ''electrical equipment'', ''power supply'',
      ''electric line'']"

definition roads_highways_keywords :: "string list" where
  "roads_highways_keywords =
     [''road'', ''highway'', ''pothole'', ''crack'', ''asphalt'', ''pavement'', ''footpath'',
      ''sidewalk'', ''bridge'', ''flyover'', ''overpass'', ''underpass'', ''speed breaker'',
      ''speed bump'', ''divider'', ''median'', ''curb'', ''road damage'',
      ''road construction'', ''tar'', ''concrete'', ''gravel'', ''lane'', ''intersection'',
      ''junction'', ''roundabout'', ''road sign'', ''traffic sign'', ''barricade'',
      ''guardrail'', ''railing'', ''manhole'', ''road surface'', ''street'', ''avenue'',
      ''boulevard'', ''path'', ''trail'', ''cobblestone'', ''bitumen'', ''roadwork'',
      ''paving'', ''road marking'', ''zebra crossing'', ''crosswalk'', ''pedestrian'',
      ''roadway'', ''infrastructure'']"

definition sanitation_keywords :: "string list" where
  "sanitation_keywords =
     [''garbage'', ''trash'', ''waste'', ''dump'', ''litter'', ''debris'', ''rubbish'',
      ''dustbin'', ''bin'', ''dumpster'', ''compost'', ''recycling'', ''junk'',
      ''pollution'', ''dirty'', ''filth'', ''mess'', ''unhygienic'', ''unsanitary'',
      ''toilet'', ''restroom'', ''latrine'', ''sewage'', ''sanitation'', ''cleaning'',
      ''sweeping'', ''disposal'', ''waste management'', ''plastic'', ''plastic waste'',
      ''polythene'', ''bottle'', ''cans'', ''food waste'', ''organic waste'', ''landfill'',
      ''decomposition'', ''stench'', ''smell'', ''odor'', ''foul smell'', ''rot'',
      ''rotten'', ''contamination'', ''hazardous waste'', ''biomedical waste'']"

definition public_health_keywords :: "string list" where
  "public_health_keywords =
     [''hospital'', ''clinic'', ''medical'', ''health'', ''disease'', ''infection'',
      ''mosquito'', ''pest'', ''insect'', ''rat'', ''rodent'', ''cockroach'', ''dengue'',
      ''malaria'', ''epidemic'', ''pandemic'', ''vaccination'', ''medicine'', ''pharmacy'',
      ''doctor'', ''nurse'', ''patient'', ''ambulance'', ''emergency'', ''first aid'',
      ''health hazard'', ''contamination'', ''polluted'', ''toxic'', ''chemical'', ''smoke'',
      ''air pollution'', ''respiratory'', ''safety'', ''biohazard'', ''stagnant'',
      ''breeding ground'', ''larvae'', ''fly'', ''flies'', ''public health'', ''hygiene'',
      ''disinfection'', ''sanitizer'']"

definition education_keywords :: "string list" where
  "education_keywords =
     [''school'', ''college'', ''university'', ''classroom'', ''education'', ''student'',
      ''teacher'', ''blackboard'', ''whiteboard'', ''desk'', ''chair'', ''bench'',
      ''library'', ''book'', ''notebook'', ''stationery'', ''playground'', ''campus'',
      ''laboratory'', ''computer lab'', ''hostel'', ''canteen'', ''auditorium'', ''sports'',
      ''academic'', ''tuition'', ''exam'', ''scholarship'', ''learning'']"

definition transport_keywords :: "string list" where
  "transport_keywords =
     [''bus'', ''bus stop'', ''bus stand'', ''bus station'', ''bus shelter'', ''traffic'',
      ''traffic light'', ''traffic signal'', ''traffic jam'', ''vehicle'', ''car'',
      ''truck'', ''auto'', ''rickshaw'', ''train'', ''railway'', ''metro'', ''station'',
      ''platform'', ''parking'', ''accident'', ''collision'', ''transport'',
      ''transportation'', ''commute'', ''transit'', ''route'', ''highway'', ''signal'',
      ''pedestrian crossing'', ''overloaded'', ''public transport'']"

definition revenue_keywords :: "string list" where
  "revenue_keywords =
     [''land'', ''property'', ''boundary'', ''survey'', ''deed'', ''title'',
      ''encroachment'', ''illegal construction'', ''demolition'', ''tax'', ''revenue'',
      ''registration'', ''document'', ''certificate'', ''patta'', ''chitta'', ''adangal'',
      ''land record'', ''measurement'']"

definition agriculture_keywords :: "string list" where
  "agriculture_keywords =
     [''farm'', ''crop'', ''field'', ''agriculture'', ''farming'', ''harvest'',
      ''irrigation'', ''fertilizer'', ''pesticide'', ''soil'', ''seed'', ''tractor'',
      ''plowing'', ''cattle'', ''livestock'', ''poultry'', ''paddy'', ''rice'', ''wheat'',
      ''vegetable'', ''fruit'', ''garden'', ''horticulture'', ''plantation'', ''orchard'',
      ''greenhouse'', ''drought'', ''pest attack'', ''crop damage'', ''agricultural land'']"

text \<open>Each department with its keywords and its weight, in the order of the source.\<close>

definition DEPARTMENT_KEYWORDS :: "(string \<times> string list \<times> rat) list" where
  "DEPARTMENT_KEYWORDS =
     [(''Water Resources'', water_resources_keywords, 1),
      (''Electricity'', electricity_keywords, 1),
      (''Roads & Highways'', roads_highways_keywords, 1),
      (''Sanitation'', sanitation_keywords, 1),
      (''Public Health'', public_health_keywords, 1),
      (''Education'', education_keywords, 8 / 10),
      (''Transport'', transport_keywords, 9 / 10),
      (''Revenue'', revenue_keywords, 7 / 10),
      (''Agriculture'', agriculture_keywords, 8 / 10)]"

text \<open>
  What the image analysis hands over: labels, objects and web entities as pairs of a term
  and its score (scores are doubles, read as rationals), the text found in the image, the
  name of the analyser, and the department and reason the fallback analyser names directly.
\<close>

record vision_results =
  vr_labels :: "(string \<times> rat) list"
  vr_objects :: "(string \<times> rat) list"
  vr_detectedText :: string
  vr_webEntities :: "(string \<times> rat) list"
  vr_source :: "string option"
  vr_directDepartment :: "string option"
  vr_directReason :: "string option"

datatype term_source = Label | Object | Web

record department_result =
  dr_department :: string
  dr_confidence :: nat
  dr_detectedLabels :: "string list"
  dr_matchedKeywords :: "string list"
  dr_reason :: string
  dr_source :: string

definition source_factor :: "term_source \<Rightarrow> rat" where
  "source_factor src = (case src of Label \<Rightarrow> 12 / 10 | Object \<Rightarrow> 1 | Web \<Rightarrow> 8 / 10)"

definition allTerms :: "vision_results \<Rightarrow> (string \<times> rat \<times> term_source) list" where
  "allTerms v =
     map (\<lambda>(t, sc). (t, sc, Label)) (vr_labels v)
     @ map (\<lambda>(t, sc). (t, sc, Object)) (vr_objects v)
     @ map (\<lambda>(t, sc). (t, if sc = 0 then 1 / 2 else sc, Web)) (vr_webEntities v)"

text \<open>
  The loops over the terms and the keywords of one department; the state is the score and
  the list of matched keywords.
\<close>

fun keywords_step ::
  "string \<times> rat \<times> term_source \<Rightarrow> rat \<Rightarrow> string list \<Rightarrow> rat \<times> string list \<Rightarrow> rat \<times> string list" where
  "keywords_step item weight [] st = st"
| "keywords_step (tm, sc, src) weight (keyword # rest) (score, matched) =
     keywords_step (tm, sc, src) weight rest
       (if str_includes tm keyword \<or> str_includes keyword tm
        then (score + sc * weight * source_factor src,
              if keyword \<in> set matched then matched else matched @ [keyword])
        else (score, matched))"

fun terms_step ::
  "(string \<times> rat \<times> term_source) list \<Rightarrow> rat \<Rightarrow> string list \<Rightarrow> rat \<times> string list
     \<Rightarrow> rat \<times> string list" where
  "terms_step [] weight keywords st = st"
| "terms_step (item # items) weight keywords st =
     terms_step items weight keywords (keywords_step item weight keywords st)"

fun text_step :: "string \<Rightarrow> rat \<Rightarrow> string list \<Rightarrow> rat \<times> string list \<Rightarrow> rat \<times> string list" where
  "text_step detectedText weight [] st = st"
| "text_step detectedText weight (keyword # rest) (score, matched) =
     text_step detectedText weight rest
       (if str_includes detectedText keyword
        then (score + (1 / 2) * weight,
              if keyword \<in> set matched then matched else matched @ [''text:'' @ keyword])
        else (score, matched))"

definition score_department ::
  "vision_results \<Rightarrow> string list \<times> rat \<Rightarrow> rat \<times> string list" where
  "score_department v config =
     (let st = terms_step (allTerms v) (snd config) (fst config) (0, [])
      in if vr_detectedText v \<noteq> [] then text_step (vr_detectedText v) (snd config) (fst config) st
         else st)"

definition department_scores :: "vision_results \<Rightarrow> (string \<times> rat) list" where
  "department_scores v = map (\<lambda>(dept, config). (dept, fst (score_department v config))) DEPARTMENT_KEYWORDS"

definition matchedKeywords :: "vision_results \<Rightarrow> string \<Rightarrow> string list" where
  "matchedKeywords v dept =
     (case map_of DEPARTMENT_KEYWORDS dept of
        Some config \<Rightarrow> snd (score_department v config)
      | None \<Rightarrow> [])"

text \<open>
  The ranking: \<^verbatim>\<open>Object.entries(scores).sort((a, b) => b[1] - a[1]).filter(([, score]) => score > 0)\<close>,
  then the department at the head and its share of the total, as a percentage of at most 99.
\<close>

definition ranked :: "(string \<times> rat) list \<Rightarrow> (string \<times> rat) list" where
  "ranked scores = filter (\<lambda>e. snd e > 0) (sort_desc scores)"

definition confidence_of :: "rat \<Rightarrow> rat \<Rightarrow> nat" where
  "confidence_of topScore totalScore =
     (if totalScore > 0 then min (math_round ((topScore / totalScore) * 100)) 99 else 0)"

definition source_or_default :: "string option \<Rightarrow> string" where
  "source_or_default src = or_else src ''keyword-mapping''"

text \<open>
  The direct guess: the department of the enumeration (or General) that equals the guess of
  the fallback analyser up to case, when there is such a guess.
\<close>

definition direct_match :: "vision_results \<Rightarrow> string option" where
  "direct_match v =
     (let validDepts = map fst DEPARTMENT_KEYWORDS @ [''General'']
      in if truthy (vr_directDepartment v) \<and> vr_source v = Some ''openrouter-vision''
         then find (\<lambda>d. toLowerCase d = toLowerCase (the (vr_directDepartment v))) validDepts
         else None)"

definition mapToDepartment :: "vision_results \<Rightarrow> department_result" where
  "mapToDepartment v =
     (case direct_match v of
        Some matched \<Rightarrow>
          \<lparr>dr_department = matched,
           dr_confidence = 85,
           dr_detectedLabels = map fst (take 8 (vr_labels v)),
           dr_matchedKeywords = [],
           dr_reason = or_else (vr_directReason v) (''AI vision detected: '' @ matched),
           dr_source = ''openrouter-vision''\<rparr>
      | None \<Rightarrow>
          (case ranked (department_scores v) of
             [] \<Rightarrow>
               \<lparr>dr_department = ''General'',
                dr_confidence = 0,
                dr_detectedLabels = map fst (take 8 (vr_labels v)),
                dr_matchedKeywords = [],
                dr_reason = ''Could not match image to a specific department'',
                dr_source = source_or_default (vr_source v)\<rparr>
           | (topDept, topScore) # rest \<Rightarrow>
               \<lparr>dr_department = topDept,
                dr_confidence =
                  confidence_of topScore (sum_list (map snd ((topDept, topScore) # rest))),
                dr_detectedLabels = map fst (take 8 (vr_labels v)),
                dr_matchedKeywords = matchedKeywords v topDept,
                dr_reason = ''Detected: '' @ join '', '' (take 5 (matchedKeywords v topDept)),
                dr_source = source_or_default (vr_source v)\<rparr>))"

section \<open>Classifier gateway: \<^verbatim>\<open>callAI\<close>\<close>

definition MODEL :: string where
  "MODEL = ''deepseek/deepseek-chat-v3-0324''"

definition FALLBACK_MODEL :: string where
  "FALLBACK_MODEL = ''deepseek/deepseek-chat''"

definition MAX_RETRIES :: nat where
  "MAX_RETRIES = 1"

definition RETRY_DELAY_MS :: nat where
  "RETRY_DELAY_MS = 2000"

definition CLOUD_COOLDOWN_MS :: nat where
  "CLOUD_COOLDOWN_MS = 5 * 60 * 1000"

text \<open>
  One request to the remote service either answers with the content of the first choice
  (\<open>None\<close> when the answer has none), or fails with a status
  (\<^verbatim>\<open>error.status || error.code || 0\<close>) at an instant of the clock.
\<close>

datatype outcome = Answer "string option" | Failure nat instant

text \<open>What the gateway does besides returning: the requests it sends and the pauses it makes.\<close>

datatype action = Request string nat | Pause nat

text \<open>How one pass through the body of the inner loop ends.\<close>

datatype 'a flow = Return 'a | NextModel

text \<open>
  The inner loop, \<^verbatim>\<open>for (attempt = 0; attempt <= MAX_RETRIES; attempt++)\<close>, over the
  attempts still to make. \<open>remote\<close> gives the outcome of the request to a model at an
  attempt; \<open>trace\<close> collects the actions. A \<open>Return\<close> carries the result and the new
  value of \<^verbatim>\<open>cloudDisabledUntil\<close>.
\<close>

fun try_model ::
  "(string \<Rightarrow> nat \<Rightarrow> outcome) \<Rightarrow> string \<Rightarrow> nat list \<Rightarrow> nat \<Rightarrow> action list
     \<Rightarrow> (string option \<times> nat) flow \<times> action list" where
  "try_model remote currentModel [] disabledUntil trace = (NextModel, trace)"
| "try_model remote currentModel (attempt # later) disabledUntil trace =
     (case remote currentModel attempt of
        Answer content \<Rightarrow>
          (Return (if truthy (map_option trim content) then map_option trim content else None, 0),
           trace @ [Request currentModel attempt])
      | Failure st when \<Rightarrow>
          if st = 401 \<or> st = 403
          then (Return (None, when + CLOUD_COOLDOWN_MS), trace @ [Request currentModel attempt])
          else if st = 429 then (NextModel, trace @ [Request currentModel attempt])
          else if attempt < MAX_RETRIES
          then try_model remote currentModel later disabledUntil
                 (trace @ [Request currentModel attempt, Pause RETRY_DELAY_MS])
          else try_model remote currentModel later disabledUntil
                 (trace @ [Request currentModel attempt]))"

text \<open>The outer loop, \<^verbatim>\<open>for (const currentModel of modelsToTry)\<close>.\<close>

fun try_models ::
  "(string \<Rightarrow> nat \<Rightarrow> outcome) \<Rightarrow> string list \<Rightarrow> nat \<Rightarrow> action list
     \<Rightarrow> (string option \<times> nat) \<times> action list" where
  "try_models remote [] disabledUntil trace = ((None, disabledUntil), trace)"
| "try_models remote (currentModel # others) disabledUntil trace =
     (case try_model remote currentModel [0 ..< Suc MAX_RETRIES] disabledUntil trace of
        (Return r, trace') \<Rightarrow> (r, trace')
      | (NextModel, trace') \<Rightarrow> try_models remote others disabledUntil trace')"

text \<open>
  The gateway: the state is \<^verbatim>\<open>cloudDisabledUntil\<close>, \<open>now\<close> is the clock at the call.
  The result is the text or \<open>None\<close>, the new state, and the actions taken.
\<close>

definition callAI ::
  "(string \<Rightarrow> nat \<Rightarrow> outcome) \<Rightarrow> nat \<Rightarrow> instant \<Rightarrow> (string option \<times> nat) \<times> action list" where
  "callAI remote cloudDisabledUntil now =
     (if now < cloudDisabledUntil then ((None, cloudDisabledUntil), [])
      else try_models remote [MODEL, FALLBACK_MODEL] cloudDisabledUntil [])"

section \<open>Notions of the specification\<close>


text \<open>
  The fallback priority, in the words of the specification: every keyword of a level that
  occurs in the lower-cased text of description and department counts 3 for Critical, 2 for
  High and 1 for Medium and Low; three departments add 1 to Critical and 0.5 to High, Roads
  and Highways adds half of that; the level of the highest score wins, Critical before High
  before Medium before Low; without any score the priority is Medium.
\<close>

definition hits :: "string \<Rightarrow> string list \<Rightarrow> nat" where
  "hits text keywords = length (filter (\<lambda>kw. str_includes text kw) keywords)"

definition critical_boost :: "string \<Rightarrow> rat" where
  "critical_boost dept =
     (if dept \<in> set [''Electricity'', ''Water Resources'', ''Public Health''] then 1
      else if dept = ''Roads & Highways'' then 1 / 2 else 0)"

definition high_boost :: "string \<Rightarrow> rat" where
  "high_boost dept =
     (if dept \<in> set [''Electricity'', ''Water Resources'', ''Public Health''] then 1 / 2
      else if dept = ''Roads & Highways'' then 1 / 4 else 0)"

definition priority_by_spec :: "string \<Rightarrow> string \<Rightarrow> string" where
  "priority_by_spec descr dept =
     (let text = toLowerCase (descr @ '' '' @ dept);
          critical = 3 * of_nat (hits text Critical_keywords) + critical_boost dept;
          high = 2 * of_nat (hits text High_keywords) + high_boost dept;
          medium = (of_nat (hits text Medium_keywords) :: rat);
          low = (of_nat (hits text Low_keywords) :: rat)
      in if critical = 0 \<and> high = 0 \<and> medium = 0 \<and> low = 0 then ''Medium''
         else if critical \<ge> high \<and> critical \<ge> medium \<and> critical \<ge> low then ''Critical''
         else if high \<ge> medium \<and> high \<ge> low then ''High''
         else if medium \<ge> low then ''Medium''
         else ''Low'')"

section \<open>Sample data\<close>

text \<open>A small collection and its users, for the concrete instances below.\<close>

definition sample_complaint ::
  "object_id \<Rightarrow> string \<Rightarrow> string \<Rightarrow> string \<Rightarrow> string \<Rightarrow> string \<Rightarrow> object_id option \<Rightarrow> complaint" where
  "sample_complaint i tid dept ar descr st asg =
     \<lparr>c_id = i, ticketId = tid, userId = 100, userName = ''Ravi'', userEmail = ''ravi@example.org'',
      area = ar, address = [], department = dept, description = descr, photo = ''data:image/jpeg'',
      status = st,
      statusHistory = [\<lparr>se_status = ''Registered'', se_timestamp = 0, se_updatedBy = None,
                         se_updatedByName = ''System'',
                         se_note = ''Complaint registered successfully''\<rparr>],
      priority = ''Medium'', assignedTo = asg, assignedToName = map_option (\<lambda>_. ''Asha'') asg,
      resolution = None, rating = None, feedback = None, isDuplicate = False, duplicateOf = None,
      isFake = False, aiRemarks = [], createdAt = 0, updatedAt = 0\<rparr>"

definition first_complaint :: complaint where
  "first_complaint =
     sample_complaint 1 ''TNSMP-000001-001'' ''Electricity'' ''Chennai''
       ''street light broken'' ''Accepted'' (Some 7)"

definition second_complaint :: complaint where
  "second_complaint =
     sample_complaint 2 ''TNSMP-000002-002'' ''Electricity'' ''Chennai''
       ''transformer smoke noise'' ''Registered'' (Some 7)"

definition third_complaint :: complaint where
  "third_complaint =
     sample_complaint 3 ''TNSMP-000003-003'' ''Electricity'' ''Madurai''
       ''power cable fallen'' ''Completed'' (Some 8)"

definition sample_db :: "complaint list" where
  "sample_db = [first_complaint, second_complaint, third_complaint]"

definition sample_provider :: auth_user where
  "sample_provider =
     \<lparr>au_id = 7, au_name = ''Asha'', au_email = ''asha@example.org'', au_department = ''Electricity''\<rparr>"

definition sample_citizen :: auth_user where
  "sample_citizen =
     \<lparr>au_id = 100, au_name = ''Ravi'', au_email = ''ravi@example.org'', au_department = []\<rparr>"

definition asha :: user where
  "asha = \<lparr>u_id = 7, u_name = ''Asha'', u_email = ''asha@example.org'', u_role = ''provider'',
            u_department = ''Electricity''\<rparr>"

definition bala :: user where
  "bala = \<lparr>u_id = 8, u_name = ''Bala'', u_email = ''bala@example.org'', u_role = ''provider'',
            u_department = ''Electricity''\<rparr>"

definition chitra :: user where
  "chitra = \<lparr>u_id = 9, u_name = ''Chitra'', u_email = ''chitra@example.org'', u_role = ''provider'',
              u_department = ''Sanitation''\<rparr>"

definition sample_users :: "user list" where
  "sample_users = [asha, bala, chitra]"

definition sample_request :: "string \<Rightarrow> string \<Rightarrow> string \<Rightarrow> create_request" where
  "sample_request dept ar descr =
     \<lparr>rq_area = Some ar, rq_department = Some dept, rq_description = Some descr,
      rq_photo = Some ''data:image/jpeg'', rq_address = None\<rparr>"

definition sample_env :: create_env where
  "sample_env =
     \<lparr>ev_geo = None, ev_vision_department = ''General'', ev_cloud_verdict = None,
      ev_priority_response = None, ev_ticketId = ''TNSMP-000004-004'', ev_new_id = 4\<rparr>"

definition duplicate_request :: create_request where
  "duplicate_request = sample_request ''Electricity'' ''Chennai'' ''street light broken again''"

definition transport_request :: create_request where
  "transport_request = sample_request ''Transport'' ''Chennai'' ''bus stop damaged''"

definition mashed_request :: create_request where
  "mashed_request = sample_request ''Electricity'' ''Chennai'' ''asdf asdf asdf''"

definition pothole_image :: vision_results where
  "pothole_image =
     \<lparr>vr_labels = [(''pothole'', 9 / 10)], vr_objects = [], vr_detectedText = [],
      vr_webEntities = [], vr_source = Some ''google-vision'', vr_directDepartment = None,
      vr_directReason = None\<rparr>"

definition sewage_image :: vision_results where
  "sewage_image =
     \<lparr>vr_labels = [(''sewage'', 1 / 2)], vr_objects = [], vr_detectedText = [],
      vr_webEntities = [], vr_source = Some ''google-vision'', vr_directDepartment = None,
      vr_directReason = None\<rparr>"

definition guessed_image :: vision_results where
  "guessed_image =
     \<lparr>vr_labels = [], vr_objects = [], vr_detectedText = [], vr_webEntities = [],
      vr_source = Some ''openrouter-vision'', vr_directDepartment = Some ''SANITATION'',
      vr_directReason = None\<rparr>"

section \<open>Lifecycle: properties\<close>

lemma allowed_from_table: "tgt \<in> set (allowed_from cur) \<longleftrightarrow> (cur, tgt) \<in> transition_table"
  by (auto simp: allowed_from_def validTransitions_def transition_table_def split: if_splits)

lemma findById_Some: "findById db i = Some c \<Longrightarrow> c \<in> set db \<and> c_id c = i"
  unfolding findById_def by (induction db) (auto split: if_splits)

lemma update_status_refused_unchanged:
  "fst (update_status db now usr cid tgt res) = Inl r \<Longrightarrow>
   snd (update_status db now usr cid tgt res) = db"
  by (auto simp: update_status_def Let_def split: option.splits if_splits)

lemma update_status_accepted:
  assumes "fst (update_status db now usr cid tgt res) = Inr c'"
  shows "assignedTo c' = Some (au_id usr) \<and> status c' = tgt
       \<and> snd (update_status db now usr cid tgt res) = save_existing db c'
       \<and> (tgt = ''Accepted'' \<longrightarrow> activeCount db (au_id usr) (c_id c') = 0)"
proof (cases "findById db cid")
  case None
  with assms show ?thesis by (simp add: update_status_def)
next
  case (Some c)
  show ?thesis
  proof (cases "department c \<noteq> au_department usr \<or> tgt \<notin> set (allowed_from (status c))
                \<or> (tgt = ''Accepted'' \<and> activeCount db (au_id usr) (c_id c) > 0)")
    case True
    with assms Some show ?thesis by (auto simp: update_status_def)
  next
    case False
    with assms Some show ?thesis by (auto simp: update_status_def Let_def)
  qed
qed

lemma sample_db_second: "findById sample_db 2 = Some second_complaint"
  by (simp add: findById_def sample_db_def first_complaint_def second_complaint_def third_complaint_def sample_complaint_def)

lemma sample_db_third: "findById sample_db 3 = Some third_complaint"
  by (simp add: findById_def sample_db_def first_complaint_def second_complaint_def third_complaint_def sample_complaint_def)

text \<open>
  C1, as it stands, fails: the pair (Registered, Accepted) is in the table, yet the request
  of a provider who already holds an accepted complaint is refused.
\<close>

theorem update_status_table_counterexample:
  "(status second_complaint, ''Accepted'') \<in> transition_table
   \<and> findById sample_db 2 = Some second_complaint
   \<and> department second_complaint = au_department sample_provider
   \<and> update_status sample_db 50 sample_provider 2 ''Accepted'' None
       = (Inl (Reply 400 capacity_message), sample_db)"
  by (simp add: update_status_def findById_def sample_db_def first_complaint_def second_complaint_def third_complaint_def sample_complaint_def
      sample_provider_def transition_table_def allowed_from_def validTransitions_def activeCount_def)

text \<open>
  C1, amended. The status update accepts a request exactly when the complaint exists, belongs
  to the department of the acting provider, the pair of its current status and the target is
  in the transition table, and, for the target Accepted, the provider holds no other
  complaint in Accepted or Working On. A request on a complaint of the provider's department
  whose pair is not in the table is answered with status 400 and the message that names the
  current status, the target and the allowed targets. Whenever a request is refused, the
  collection is unchanged, and so are the status, the assignment, the resolution and the
  history of the complaint.
\<close>

theorem update_status_accepts_iff:
  "((\<exists>c'. fst (update_status db now usr cid tgt res) = Inr c') \<longleftrightarrow>
      (\<exists>c. findById db cid = Some c \<and> department c = au_department usr
           \<and> (status c, tgt) \<in> transition_table
           \<and> (tgt = ''Accepted'' \<longrightarrow> activeCount db (au_id usr) cid = 0)))
   \<and> (\<forall>c. findById db cid = Some c \<and> department c = au_department usr
            \<and> (status c, tgt) \<notin> transition_table \<longrightarrow>
          update_status db now usr cid tgt res =
            (Inl (Reply 400 (transition_message (status c) tgt (allowed_from (status c)))), db))
   \<and> (\<forall>r. fst (update_status db now usr cid tgt res) = Inl r \<longrightarrow>
          snd (update_status db now usr cid tgt res) = db)"
proof (intro conjI allI impI)
  show "(\<exists>c'. fst (update_status db now usr cid tgt res) = Inr c') \<longleftrightarrow>
      (\<exists>c. findById db cid = Some c \<and> department c = au_department usr
           \<and> (status c, tgt) \<in> transition_table
           \<and> (tgt = ''Accepted'' \<longrightarrow> activeCount db (au_id usr) cid = 0))"
  proof (cases "findById db cid")
    case None
    then show ?thesis by (simp add: update_status_def)
  next
    case (Some c)
    then have "c_id c = cid" by (simp add: findById_Some)
    with Some show ?thesis
      by (auto simp: update_status_def Let_def allowed_from_table)
  qed
next
  fix c
  assume "findById db cid = Some c \<and> department c = au_department usr
            \<and> (status c, tgt) \<notin> transition_table"
  then show "update_status db now usr cid tgt res =
            (Inl (Reply 400 (transition_message (status c) tgt (allowed_from (status c)))), db)"
    by (simp add: update_status_def allowed_from_table)
next
  fix r assume "fst (update_status db now usr cid tgt res) = Inl r"
  then show "snd (update_status db now usr cid tgt res) = db"
    by (rule update_status_refused_unchanged)
qed

text \<open>
  An instance: the request Registered to Working On on the second sample complaint is
  refused, and the message lists Accepted and Rejected.
\<close>

theorem update_status_accepts_iff_witness:
  "findById sample_db 2 = Some second_complaint
   \<and> department second_complaint = au_department sample_provider
   \<and> (status second_complaint, ''Working On'') \<notin> transition_table
   \<and> update_status sample_db 50 sample_provider 2 ''Working On'' None
       = (Inl (Reply 400 (''Cannot change status from '' @ [CHR 0x22] @ ''Registered'' @ [CHR 0x22]
                            @ '' to '' @ [CHR 0x22] @ ''Working On'' @ [CHR 0x22]
                            @ ''. Allowed: Accepted, Rejected'')), sample_db)"
proof -
  have h: "findById sample_db 2 = Some second_complaint
      \<and> department second_complaint = au_department sample_provider
      \<and> (status second_complaint, ''Working On'') \<notin> transition_table"
    by (simp add: sample_db_second)
       (simp add: sample_db_def first_complaint_def second_complaint_def third_complaint_def sample_complaint_def sample_provider_def transition_table_def)
  with update_status_accepts_iff [of sample_db 50 sample_provider 2 "''Working On''" None]
  have "update_status sample_db 50 sample_provider 2 ''Working On'' None =
          (Inl (Reply 400 (transition_message (status second_complaint) ''Working On''
                             (allowed_from (status second_complaint)))), sample_db)"
    by blast
  moreover have "transition_message (status second_complaint) ''Working On''
                   (allowed_from (status second_complaint))
      = ''Cannot change status from '' @ [CHR 0x22] @ ''Registered'' @ [CHR 0x22]
          @ '' to '' @ [CHR 0x22] @ ''Working On'' @ [CHR 0x22] @ ''. Allowed: Accepted, Rejected''"
    by (simp add: sample_db_def first_complaint_def second_complaint_def third_complaint_def sample_complaint_def transition_message_def allowed_from_def
        validTransitions_def)
  ultimately show ?thesis using h by simp
qed










section \<open>Stable sorting: the head of a sorted list\<close>

lemma find_hd_filter: "filter P xs \<noteq> [] \<Longrightarrow> find P xs = Some (hd (filter P xs))"
  by (induction xs) auto

lemma hd_sort_key_least:
  fixes f :: "'a \<Rightarrow> 'k::linorder"
  assumes "xs \<noteq> []"
  shows "\<forall>x \<in> set xs. f (hd (sort_key f xs)) \<le> f x"
proof -
  have ne: "sort_key f xs \<noteq> []" using assms by (metis length_sort length_0_conv)
  then obtain y ys where ys: "sort_key f xs = y # ys" by (cases "sort_key f xs") auto
  have "sorted (map f (sort_key f xs))" by (rule sorted_sort_key)
  with ys have "\<forall>z \<in> set ys. f y \<le> f z" by simp
  moreover have "set xs = insert y (set ys)" using ys set_sort [of f xs] by simp
  ultimately have "\<forall>z \<in> set xs. f y \<le> f z" by auto
  with ys show ?thesis by simp
qed

lemma hd_sort_key_first:
  fixes f :: "'a \<Rightarrow> 'k::linorder"
  assumes "xs \<noteq> []"
  shows "find (\<lambda>x. f x = f (hd (sort_key f xs))) xs = Some (hd (sort_key f xs))"
proof -
  let ?ys = "sort_key f xs" and ?m = "f (hd (sort_key f xs))"
  have ne: "?ys \<noteq> []" using assms by (metis length_sort length_0_conv)
  then obtain y ys where ys: "?ys = y # ys" by (cases ?ys) auto
  have "filter (\<lambda>x. f x = ?m) xs = filter (\<lambda>x. f x = ?m) ?ys"
    by (simp add: sort_key_stable)
  also have "\<dots> = y # filter (\<lambda>x. f x = f y) ys" using ys by simp
  finally have flt: "filter (\<lambda>x. f x = ?m) xs = y # filter (\<lambda>x. f x = f y) ys" .
  then have "find (\<lambda>x. f x = ?m) xs = Some (hd (filter (\<lambda>x. f x = ?m) xs))"
    by (intro find_hd_filter) simp
  with flt ys show ?thesis by simp
qed

lemma hd_sort_key_mem:
  fixes f :: "'a \<Rightarrow> 'k::linorder"
  shows "xs \<noteq> [] \<Longrightarrow> hd (sort_key f xs) \<in> set xs"
  by (metis hd_in_set length_0_conv length_sort set_sort)


section \<open>Dispatch: properties\<close>

lemma find_map_comp: "find P (map g xs) = map_option g (find (\<lambda>x. P (g x)) xs)"
  by (induction xs) auto

lemma find_zero_sorted:
  fixes ys :: "('a \<times> nat) list"
  assumes "sorted (map snd ys)" and "find (\<lambda>p. snd p = 0) ys = Some x"
  shows "x = hd ys"
proof (cases ys)
  case Nil
  with assms show ?thesis by simp
next
  case (Cons y ys')
  show ?thesis
  proof (cases "snd y = 0")
    case True
    with assms Cons show ?thesis by simp
  next
    case False
    with assms Cons have "find (\<lambda>p. snd p = 0) ys' = Some x" by simp
    then have "x \<in> set ys'" and "snd x = 0"
      by (auto simp: find_Some_iff)
    with assms(1) Cons have "snd y \<le> 0" by auto
    with False show ?thesis by simp
  qed
qed

lemma assign_is_head:
  assumes "providers_of users dept \<noteq> []"
  shows "assignProviderForDepartment users db dept
           = Some (hd (sort_key snd (map (\<lambda>p. (p, activeLoad db (u_id p))) (providers_of users dept))))"
proof -
  let ?ys = "sort_key snd (map (\<lambda>p. (p, activeLoad db (u_id p))) (providers_of users dept))"
  have srt: "sorted (map snd ?ys)" by (rule sorted_sort_key)
  show ?thesis
  proof (cases "find (\<lambda>p. snd p = 0) ?ys")
    case None
    with assms show ?thesis by (simp add: assignProviderForDepartment_def Let_def)
  next
    case (Some x)
    with srt have "x = hd ?ys" by (rule find_zero_sorted)
    with Some assms show ?thesis by (simp add: assignProviderForDepartment_def Let_def)
  qed
qed

lemma assign_characterised:
  assumes "assignProviderForDepartment users db dept = Some (p, l)"
  shows "p \<in> set (providers_of users dept) \<and> l = activeLoad db (u_id p)
       \<and> (\<forall>q \<in> set (providers_of users dept). l \<le> activeLoad db (u_id q))
       \<and> find (\<lambda>q. activeLoad db (u_id q) = l) (providers_of users dept) = Some p"
proof -
  let ?ps = "providers_of users dept"
  let ?pl = "map (\<lambda>p. (p, activeLoad db (u_id p))) ?ps"
  have ne: "?ps \<noteq> []" using assms by (auto simp: assignProviderForDepartment_def)
  then have ne': "?pl \<noteq> []" by simp
  from assms assign_is_head [OF ne, of db] have hd: "hd (sort_key snd ?pl) = (p, l)" by simp
  from hd_sort_key_mem [OF ne', of snd] hd have mem: "(p, l) \<in> set ?pl" by simp
  then have 1: "p \<in> set ?ps" and 2: "l = activeLoad db (u_id p)" by auto
  from hd_sort_key_least [OF ne', of snd] hd have "\<forall>x \<in> set ?pl. l \<le> snd x" by simp
  then have 3: "\<forall>q \<in> set ?ps. l \<le> activeLoad db (u_id q)" by simp
  from hd_sort_key_first [OF ne', of snd] hd
  have "find (\<lambda>x. snd x = l) ?pl = Some (p, l)" by simp
  then have "map_option (\<lambda>p. (p, activeLoad db (u_id p))) (find (\<lambda>q. activeLoad db (u_id q) = l) ?ps)
               = Some (p, l)"
    by (simp add: find_map_comp)
  then have 4: "find (\<lambda>q. activeLoad db (u_id q) = l) ?ps = Some p" by auto
  from 1 2 3 4 show ?thesis by simp
qed

lemma assign_none_iff:
  "assignProviderForDepartment users db dept = None \<longleftrightarrow> providers_of users dept = []"
  by (auto simp: assignProviderForDepartment_def Let_def split: option.splits)

section \<open>Integrity filter: properties\<close>











text \<open>Evaluations on the sample data.\<close>

lemma words_new: "getWords ''street light broken again'' = [''street'', ''light'', ''broken'', ''again'']"
  by code_simp

lemma words_first: "getWords ''street light broken'' = [''street'', ''light'', ''broken'']"
  by code_simp

lemma words_second: "getWords ''transformer smoke noise'' = [''transformer'', ''smoke'', ''noise'']"
  by code_simp

lemma sim_first: "jaccardSimilarity [''street'', ''light'', ''broken'', ''again''] [''street'', ''light'', ''broken''] = 3 / 4"
  by code_simp

lemma sim_second: "jaccardSimilarity [''street'', ''light'', ''broken'', ''again''] [''transformer'', ''smoke'', ''noise''] = 0"
  by code_simp

lemma fake_check_new: "fake_check ''street light broken again'' = None"
  by code_simp


lemma remark_round_75: "string_of_nat (math_round 75) = ''75''"
  by code_simp






text \<open>The scenario of the specification.\<close>

lemma mash_fake: "fake_check ''asdf asdf asdf'' = Some ''Description appears to be gibberish (only 0% recognizable words)''"
  by code_simp


section \<open>Intake: properties\<close>

lemma create_reaches_save:
  assumes "truthy (rq_photo rq)" "truthy (rq_description rq)"
    and "\<not> v_isFake (integrity_verdict db env rq)"
  shows "create_complaint users db now usr env rq =
           (case save_new db (complaintData users db now usr env rq) of
              None \<Rightarrow> (ServerError, db)
            | Some db' \<Rightarrow>
                (Created (responseData users db env rq (complaintData users db now usr env rq)), db'))"
  using assms by (simp add: create_complaint_def Let_def)

lemma save_new_fresh:
  assumes "department c \<in> set department_enum"
    and "ticketId c \<notin> set (map ticketId db)" and "c_id c \<notin> set (map c_id db)"
  shows "save_new db c = Some (db @ [c])"
  using assms by (simp add: save_new_def)

lemma save_new_Some: "save_new db c = Some db' \<Longrightarrow> db' = db @ [c]"
  by (auto simp: save_new_def split: if_splits)

lemma complaintData_fields:
  "department (complaintData users db now usr env rq) = resolved_department env rq"
  "ticketId (complaintData users db now usr env rq) = ev_ticketId env"
  "c_id (complaintData users db now usr env rq) = ev_new_id env"
  "isFake (complaintData users db now usr env rq) = False"
  "assignedTo (complaintData users db now usr env rq)
     = map_option (\<lambda>p. u_id (fst p)) (assignedProvider users db env rq)"
  "assignedToName (complaintData users db now usr env rq)
     = map_option (\<lambda>p. u_name (fst p)) (assignedProvider users db env rq)"
  "status (complaintData users db now usr env rq)
     = (if v_isDuplicate (integrity_verdict db env rq) then ''Rejected'' else ''Registered'')"
  "statusHistory (complaintData users db now usr env rq)
     = [\<lparr>se_status = (if v_isDuplicate (integrity_verdict db env rq) then ''Rejected''
                       else ''Registered''),
         se_timestamp = now, se_updatedBy = None, se_updatedByName = ''System'',
         se_note = (if v_isDuplicate (integrity_verdict db env rq)
                    then ''Flagged as duplicate of ''
                           @ show_nullable (v_duplicateOf (integrity_verdict db env rq))
                    else ''Complaint registered successfully'')\<rparr>]"
  by (simp_all add: complaintData_def Let_def)

lemma create_created:
  assumes "truthy (rq_photo rq)" "truthy (rq_description rq)"
    and "\<not> v_isFake (integrity_verdict db env rq)"
    and "resolved_department env rq \<in> set department_enum"
    and "ev_ticketId env \<notin> set (map ticketId db)" and "ev_new_id env \<notin> set (map c_id db)"
  shows "create_complaint users db now usr env rq =
           (Created (responseData users db env rq (complaintData users db now usr env rq)),
            db @ [complaintData users db now usr env rq])"
proof -
  have "save_new db (complaintData users db now usr env rq)
          = Some (db @ [complaintData users db now usr env rq])"
    using assms(4-6) by (intro save_new_fresh) (simp_all add: complaintData_fields)
  with create_reaches_save [OF assms(1-3)] show ?thesis by simp
qed

lemma duplicate_not_assigned:
  "v_isDuplicate (integrity_verdict db env rq) \<Longrightarrow> assignedProvider users db env rq = None"
  by (simp add: assignedProvider_def Let_def)

lemma duplicate_ignores_users:
  assumes "v_isDuplicate (integrity_verdict db env rq)"
  shows "create_complaint users' db now usr env rq = create_complaint users db now usr env rq"
proof -
  have "complaintData users' db now usr env rq = complaintData users db now usr env rq"
    using assms by (simp add: complaintData_def Let_def duplicate_not_assigned)
  moreover have "\<And>c. responseData users' db env rq c = responseData users db env rq c"
    using assms by (simp add: responseData_def Let_def duplicate_not_assigned)
  ultimately show ?thesis by (simp add: create_complaint_def Let_def split: option.split)
qed

text \<open>
  C5. Take a submission that reaches the save (photo and description present, verdict not
  fake) and whose save succeeds (department of the enumeration, fresh ticket id and object
  id). If the verdict is a duplicate, the complaint is stored, with status Rejected, without
  a provider, and with the single history entry Rejected written by System; the balancer is
  not asked, since the reply and the store are the same for every collection of users. If
  the verdict is not a duplicate, the complaint is stored with status Registered and the
  single history entry Registered written by System.
\<close>

theorem duplicate_created_rejected:
  "truthy (rq_photo rq) \<and> truthy (rq_description rq)
   \<and> \<not> v_isFake (integrity_verdict db env rq)
   \<and> resolved_department env rq \<in> set department_enum
   \<and> ev_ticketId env \<notin> set (map ticketId db) \<and> ev_new_id env \<notin> set (map c_id db) \<longrightarrow>
     (\<exists>c resp. create_complaint users db now usr env rq = (Created resp, db @ [c])
        \<and> (v_isDuplicate (integrity_verdict db env rq) \<longrightarrow>
              status c = ''Rejected'' \<and> assignedTo c = None \<and> assignedToName c = None
              \<and> rs_assignedTo resp = None
              \<and> statusHistory c =
                  [\<lparr>se_status = ''Rejected'', se_timestamp = now, se_updatedBy = None,
                    se_updatedByName = ''System'',
                    se_note = ''Flagged as duplicate of ''
                                @ show_nullable (v_duplicateOf (integrity_verdict db env rq))\<rparr>]
              \<and> (\<forall>users'. create_complaint users' db now usr env rq
                             = create_complaint users db now usr env rq))
        \<and> (\<not> v_isDuplicate (integrity_verdict db env rq) \<longrightarrow>
              status c = ''Registered''
              \<and> statusHistory c =
                  [\<lparr>se_status = ''Registered'', se_timestamp = now, se_updatedBy = None,
                    se_updatedByName = ''System'',
                    se_note = ''Complaint registered successfully''\<rparr>]))"
proof (intro impI)
  assume h: "truthy (rq_photo rq) \<and> truthy (rq_description rq)
   \<and> \<not> v_isFake (integrity_verdict db env rq)
   \<and> resolved_department env rq \<in> set department_enum
   \<and> ev_ticketId env \<notin> set (map ticketId db) \<and> ev_new_id env \<notin> set (map c_id db)"
  let ?c = "complaintData users db now usr env rq"
  let ?resp = "responseData users db env rq ?c"
  from h have cr: "create_complaint users db now usr env rq = (Created ?resp, db @ [?c])"
    by (intro create_created) simp_all
  have dup: "v_isDuplicate (integrity_verdict db env rq) \<longrightarrow>
              status ?c = ''Rejected'' \<and> assignedTo ?c = None \<and> assignedToName ?c = None
              \<and> rs_assignedTo ?resp = None
              \<and> statusHistory ?c =
                  [\<lparr>se_status = ''Rejected'', se_timestamp = now, se_updatedBy = None,
                    se_updatedByName = ''System'',
                    se_note = ''Flagged as duplicate of ''
                                @ show_nullable (v_duplicateOf (integrity_verdict db env rq))\<rparr>]
              \<and> (\<forall>users'. create_complaint users' db now usr env rq
                             = create_complaint users db now usr env rq)"
    by (simp add: complaintData_fields duplicate_not_assigned responseData_def Let_def
        duplicate_ignores_users)
  have reg: "\<not> v_isDuplicate (integrity_verdict db env rq) \<longrightarrow>
              status ?c = ''Registered''
              \<and> statusHistory ?c =
                  [\<lparr>se_status = ''Registered'', se_timestamp = now, se_updatedBy = None,
                    se_updatedByName = ''System'',
                    se_note = ''Complaint registered successfully''\<rparr>]"
    by (simp add: complaintData_fields)
  from cr dup reg show "\<exists>c resp. create_complaint users db now usr env rq = (Created resp, db @ [c])
        \<and> (v_isDuplicate (integrity_verdict db env rq) \<longrightarrow>
              status c = ''Rejected'' \<and> assignedTo c = None \<and> assignedToName c = None
              \<and> rs_assignedTo resp = None
              \<and> statusHistory c =
                  [\<lparr>se_status = ''Rejected'', se_timestamp = now, se_updatedBy = None,
                    se_updatedByName = ''System'',
                    se_note = ''Flagged as duplicate of ''
                                @ show_nullable (v_duplicateOf (integrity_verdict db env rq))\<rparr>]
              \<and> (\<forall>users'. create_complaint users' db now usr env rq
                             = create_complaint users db now usr env rq))
        \<and> (\<not> v_isDuplicate (integrity_verdict db env rq) \<longrightarrow>
              status c = ''Registered''
              \<and> statusHistory c =
                  [\<lparr>se_status = ''Registered'', se_timestamp = now, se_updatedBy = None,
                    se_updatedByName = ''System'',
                    se_note = ''Complaint registered successfully''\<rparr>])"
    by (intro exI [of _ ?c] exI [of _ ?resp] conjI)
qed


lemma create_store:
  "snd (create_complaint users db now usr env rq) = db
   \<or> snd (create_complaint users db now usr env rq) = db @ [complaintData users db now usr env rq]"
  by (auto simp: create_complaint_def Let_def save_new_def split: option.splits if_splits)

lemma create_keeps_not_fake:
  assumes "\<forall>d \<in> set db. \<not> isFake d"
  shows "\<forall>d \<in> set (snd (create_complaint users db now usr env rq)). \<not> isFake d"
proof -
  have "\<forall>d \<in> set (db @ [complaintData users db now usr env rq]). \<not> isFake d"
    using assms by (simp add: complaintData_fields)
  with create_store [of users db now usr env rq] assms show ?thesis
    by (elim disjE) (simp_all only:)
qed

lemma save_existing_keeps_not_fake:
  assumes "\<forall>d \<in> set db. \<not> isFake d" and "\<not> isFake c"
  shows "\<forall>d \<in> set (save_existing db c). \<not> isFake d"
  using assms by (auto simp: save_existing_def)

lemma update_keeps_not_fake:
  assumes inv: "\<forall>d \<in> set db. \<not> isFake d"
  shows "\<forall>d \<in> set (snd (update_status db now usr cid tgt res)). \<not> isFake d"
proof (cases "findById db cid")
  case None
  with inv show ?thesis by (simp add: update_status_def)
next
  case (Some c)
  then have "c \<in> set db" by (simp add: findById_Some)
  with inv have nf: "\<not> isFake c" by simp
  show ?thesis
  proof (cases "fst (update_status db now usr cid tgt res)")
    case (Inl r)
    then have "snd (update_status db now usr cid tgt res) = db"
      by (rule update_status_refused_unchanged)
    with inv show ?thesis by simp
  next
    case (Inr c')
    then have db': "snd (update_status db now usr cid tgt res) = save_existing db c'"
      using update_status_accepted by blast
    from Inr Some have "isFake c' = isFake c"
      by (auto simp: update_status_def Let_def split: if_splits)
    with nf have "\<not> isFake c'" by simp
    with inv have "\<forall>d \<in> set (save_existing db c'). \<not> isFake d"
      by (rule save_existing_keeps_not_fake)
    then show ?thesis by (simp only: db')
  qed
qed

lemma rate_keeps_not_fake:
  assumes inv: "\<forall>d \<in> set db. \<not> isFake d"
  shows "\<forall>d \<in> set (snd (rate_complaint db now usr cid rt fb)). \<not> isFake d"
proof (cases "findById db cid")
  case None
  with inv show ?thesis by (simp add: rate_complaint_def)
next
  case (Some c)
  then have "c \<in> set db" by (simp add: findById_Some)
  with inv have nf: "\<not> isFake c" by simp
  define c' where "c' = c\<lparr>rating := Some rt, feedback := Some (or_else fb []), updatedAt := now\<rparr>"
  have "\<not> isFake c'" using nf by (simp add: c'_def)
  with inv have new: "\<forall>d \<in> set (save_existing db c'). \<not> isFake d"
    by (rule save_existing_keeps_not_fake)
  have "snd (rate_complaint db now usr cid rt fb) = db
        \<or> snd (rate_complaint db now usr cid rt fb) = save_existing db c'"
    using Some by (simp add: rate_complaint_def c'_def)
  then show ?thesis
  proof
    assume "snd (rate_complaint db now usr cid rt fb) = db"
    with inv show ?thesis by (simp only:)
  next
    assume "snd (rate_complaint db now usr cid rt fb) = save_existing db c'"
    with new show ?thesis by (simp only:)
  qed
qed

lemma reachable_not_fake: "reachable db \<Longrightarrow> \<forall>d \<in> set db. \<not> isFake d"
proof (induction rule: reachable.induct)
  case reach_empty
  show ?case by simp
next
  case (reach_create db users now usr env rq)
  then show ?case by (intro create_keeps_not_fake)
next
  case (reach_update db now usr cid tgt res)
  then show ?case by (intro update_keeps_not_fake)
next
  case (reach_rate db now usr cid rt fb)
  then show ?case by (intro rate_keeps_not_fake)
qed

text \<open>
  C10. When the verdict is fake, the handler answers with status 400 and the remarks, and
  the collection is unchanged; every document the handler adds has \<open>isFake = False\<close>;
  hence no complaint of a reachable collection (one built from the empty collection by the
  handlers that write complaints) has \<open>isFake = True\<close>.
\<close>

theorem stored_never_fake:
  "(truthy (rq_photo rq) \<and> truthy (rq_description rq) \<and> v_isFake (integrity_verdict db env rq) \<longrightarrow>
      create_complaint users db now usr env rq
        = (FakeRejected
             (''This complaint appears to be invalid or fake. AI Remarks: ''
                @ v_remarks (integrity_verdict db env rq))
             (v_remarks (integrity_verdict db env rq)), db)
      \<and> status_code (fst (create_complaint users db now usr env rq)) = 400)
   \<and> (\<forall>c \<in> set (snd (create_complaint users db now usr env rq)). c \<in> set db \<or> \<not> isFake c)
   \<and> (reachable db \<longrightarrow> (\<forall>c \<in> set db. \<not> isFake c))"
proof -
  have 1: "truthy (rq_photo rq) \<and> truthy (rq_description rq) \<and> v_isFake (integrity_verdict db env rq) \<longrightarrow>
      create_complaint users db now usr env rq
        = (FakeRejected
             (''This complaint appears to be invalid or fake. AI Remarks: ''
                @ v_remarks (integrity_verdict db env rq))
             (v_remarks (integrity_verdict db env rq)), db)
      \<and> status_code (fst (create_complaint users db now usr env rq)) = 400"
    by (simp add: create_complaint_def Let_def status_code_def)
  have "\<forall>c \<in> set (db @ [complaintData users db now usr env rq]). c \<in> set db \<or> \<not> isFake c"
    by (simp add: complaintData_fields)
  moreover have "\<forall>c \<in> set db. c \<in> set db \<or> \<not> isFake c" by simp
  ultimately
  have 2: "\<forall>c \<in> set (snd (create_complaint users db now usr env rq)). c \<in> set db \<or> \<not> isFake c"
    using create_store [of users db now usr env rq] by (elim disjE) (simp_all only:)
  have 3: "reachable db \<longrightarrow> (\<forall>c \<in> set db. \<not> isFake c)"
    using reachable_not_fake by blast
  from 1 2 3 show ?thesis by (intro conjI)
qed

text \<open>
  C6. The balancer returns nothing exactly when the department has no provider. Otherwise
  it returns a provider of that department (role provider, the same department string) with
  the provider's load, the number of complaints assigned to the provider in Registered,
  Accepted or Working On; no provider of the department has a smaller load, so the load is
  0 when some provider has load 0; and among the providers of that load it is the first in
  listing order. A complaint submitted for a department of the enumeration without
  providers, passing the checks of the handler, is created with no assignment.
\<close>

theorem assign_least_loaded:
  "(assignProviderForDepartment users db dept = None \<longleftrightarrow> providers_of users dept = [])
   \<and> (\<forall>p l. assignProviderForDepartment users db dept = Some (p, l) \<longrightarrow>
         p \<in> set users \<and> u_role p = ''provider'' \<and> u_department p = dept
         \<and> l = activeLoad db (u_id p)
         \<and> (\<forall>q \<in> set (providers_of users dept). l \<le> activeLoad db (u_id q))
         \<and> ((\<exists>q \<in> set (providers_of users dept). activeLoad db (u_id q) = 0) \<longrightarrow> l = 0)
         \<and> find (\<lambda>q. activeLoad db (u_id q) = l) (providers_of users dept) = Some p)
   \<and> (providers_of users (resolved_department env rq) = []
       \<and> truthy (rq_photo rq) \<and> truthy (rq_description rq)
       \<and> \<not> v_isFake (integrity_verdict db env rq)
       \<and> resolved_department env rq \<in> set department_enum
       \<and> ev_ticketId env \<notin> set (map ticketId db) \<and> ev_new_id env \<notin> set (map c_id db) \<longrightarrow>
         (\<exists>c resp. create_complaint users db now usr env rq = (Created resp, db @ [c])
            \<and> assignedTo c = None \<and> assignedToName c = None \<and> rs_assignedTo resp = None))"
proof -
  have A: "assignProviderForDepartment users db dept = None \<longleftrightarrow> providers_of users dept = []"
    by (rule assign_none_iff)
  have B: "\<forall>p l. assignProviderForDepartment users db dept = Some (p, l) \<longrightarrow>
         p \<in> set users \<and> u_role p = ''provider'' \<and> u_department p = dept
         \<and> l = activeLoad db (u_id p)
         \<and> (\<forall>q \<in> set (providers_of users dept). l \<le> activeLoad db (u_id q))
         \<and> ((\<exists>q \<in> set (providers_of users dept). activeLoad db (u_id q) = 0) \<longrightarrow> l = 0)
         \<and> find (\<lambda>q. activeLoad db (u_id q) = l) (providers_of users dept) = Some p"
  proof (intro allI impI)
    fix p l
    assume a: "assignProviderForDepartment users db dept = Some (p, l)"
    note ch = assign_characterised [OF a]
    from ch have mem: "p \<in> set (providers_of users dept)"
      and 2: "l = activeLoad db (u_id p)"
      and 3: "\<forall>q \<in> set (providers_of users dept). l \<le> activeLoad db (u_id q)"
      and 5: "find (\<lambda>q. activeLoad db (u_id q) = l) (providers_of users dept) = Some p"
      by blast+
    from mem have 1: "p \<in> set users" "u_role p = ''provider''" "u_department p = dept"
      by (simp_all add: providers_of_def)
    have 4: "(\<exists>q \<in> set (providers_of users dept). activeLoad db (u_id q) = 0) \<longrightarrow> l = 0"
    proof
      assume "\<exists>q \<in> set (providers_of users dept). activeLoad db (u_id q) = 0"
      then obtain q where "q \<in> set (providers_of users dept)" "activeLoad db (u_id q) = 0"
        by (elim bexE)
      with 3 have "l \<le> activeLoad db (u_id q)" by (rule_tac bspec)
      with \<open>activeLoad db (u_id q) = 0\<close> have "l \<le> 0" by simp
      then show "l = 0" by simp
    qed
    from 1 2 3 4 5 show "p \<in> set users \<and> u_role p = ''provider'' \<and> u_department p = dept
         \<and> l = activeLoad db (u_id p)
         \<and> (\<forall>q \<in> set (providers_of users dept). l \<le> activeLoad db (u_id q))
         \<and> ((\<exists>q \<in> set (providers_of users dept). activeLoad db (u_id q) = 0) \<longrightarrow> l = 0)
         \<and> find (\<lambda>q. activeLoad db (u_id q) = l) (providers_of users dept) = Some p"
      by (intro conjI)
  qed
  have C: "providers_of users (resolved_department env rq) = []
       \<and> truthy (rq_photo rq) \<and> truthy (rq_description rq)
       \<and> \<not> v_isFake (integrity_verdict db env rq)
       \<and> resolved_department env rq \<in> set department_enum
       \<and> ev_ticketId env \<notin> set (map ticketId db) \<and> ev_new_id env \<notin> set (map c_id db) \<longrightarrow>
         (\<exists>c resp. create_complaint users db now usr env rq = (Created resp, db @ [c])
            \<and> assignedTo c = None \<and> assignedToName c = None \<and> rs_assignedTo resp = None)"
  proof
    assume h: "providers_of users (resolved_department env rq) = []
       \<and> truthy (rq_photo rq) \<and> truthy (rq_description rq)
       \<and> \<not> v_isFake (integrity_verdict db env rq)
       \<and> resolved_department env rq \<in> set department_enum
       \<and> ev_ticketId env \<notin> set (map ticketId db) \<and> ev_new_id env \<notin> set (map c_id db)"
    let ?c = "complaintData users db now usr env rq"
    let ?resp = "responseData users db env rq ?c"
    from h have cr: "create_complaint users db now usr env rq = (Created ?resp, db @ [?c])"
      by (intro create_created) simp_all
    from h have "assignProviderForDepartment users db (resolved_department env rq) = None"
      by (simp add: assign_none_iff)
    then have none: "assignedProvider users db env rq = None"
      by (simp add: assignedProvider_def Let_def)
    then have "assignedTo ?c = None" "assignedToName ?c = None" "rs_assignedTo ?resp = None"
      by (simp_all add: complaintData_fields responseData_def Let_def)
    with cr show "\<exists>c resp. create_complaint users db now usr env rq = (Created resp, db @ [c])
            \<and> assignedTo c = None \<and> assignedToName c = None \<and> rs_assignedTo resp = None"
      by (intro exI [of _ ?c] exI [of _ ?resp] conjI)
  qed
  from A B C show ?thesis by (intro conjI)
qed

text \<open>Evaluations of the handler on the sample data.\<close>

lemma existing_electricity: "existing_for sample_db ''Electricity'' = sample_db"
  by (simp add: existing_for_def sample_db_def first_complaint_def second_complaint_def
      third_complaint_def sample_complaint_def)

lemma existing_transport: "existing_for sample_db ''Transport'' = []"
  by (simp add: existing_for_def sample_db_def first_complaint_def second_complaint_def
      third_complaint_def sample_complaint_def)

lemma sample_request_resolved:
  "resolved_department sample_env (sample_request dept ar descr) = (if dept = [] then ''General'' else dept)"
  "resolved_area sample_env (sample_request dept ar descr) = (if ar = [] then ''Unknown'' else ar)"
  "the (rq_description (sample_request dept ar descr)) = descr"
  "truthy (rq_photo (sample_request dept ar descr))"
  "truthy (rq_description (sample_request dept ar descr)) = (descr \<noteq> [])"
  by (simp_all add: resolved_department_def resolved_area_def sample_request_def sample_env_def
      or_else_def truthy_def)

lemma sample_local_duplicate:
  "localDetectDuplicateOrFake ''street light broken again'' ''Electricity'' ''Chennai'' sample_db
     = \<lparr>v_isDuplicate = True, v_duplicateOf = Some ''TNSMP-000001-001'', v_isFake = False,
        v_remarks = ''75% similar to existing complaint TNSMP-000001-001''\<rparr>"
  by (simp add: localDetectDuplicateOrFake_def fake_check_new duplicate_check_def sample_db_def
      first_complaint_def second_complaint_def third_complaint_def sample_complaint_def
      words_new words_first words_second sim_first sim_second remark_round_75)

lemma verdict_duplicate:
  "integrity_verdict sample_db sample_env duplicate_request
     = \<lparr>v_isDuplicate = True, v_duplicateOf = Some ''TNSMP-000001-001'', v_isFake = False,
        v_remarks = ''75% similar to existing complaint TNSMP-000001-001''\<rparr>"
  by (simp add: integrity_verdict_def duplicate_request_def sample_request_resolved
      existing_electricity detectDuplicateOrFake_def sample_local_duplicate)

lemma fake_check_bus: "fake_check ''bus stop damaged'' = None"
  by code_simp

lemma verdict_transport:
  "integrity_verdict sample_db sample_env transport_request
     = \<lparr>v_isDuplicate = False, v_duplicateOf = None, v_isFake = False,
        v_remarks = ''Complaint appears valid and unique''\<rparr>"
  by (simp add: integrity_verdict_def transport_request_def sample_request_resolved
      existing_transport detectDuplicateOrFake_def localDetectDuplicateOrFake_def fake_check_bus
      duplicate_check_def)

lemma verdict_mashed:
  "integrity_verdict sample_db sample_env mashed_request
     = \<lparr>v_isDuplicate = False, v_duplicateOf = None, v_isFake = True,
        v_remarks = ''Description appears to be gibberish (only 0% recognizable words)''\<rparr>"
  by (simp add: integrity_verdict_def mashed_request_def sample_request_resolved
      detectDuplicateOrFake_def localDetectDuplicateOrFake_def mash_fake fake_verdict_def)

lemma sample_fresh:
  "ev_ticketId sample_env \<notin> set (map ticketId sample_db)"
  "ev_new_id sample_env \<notin> set (map c_id sample_db)"
  by (simp_all add: sample_env_def sample_db_def first_complaint_def second_complaint_def
      third_complaint_def sample_complaint_def)

text \<open>
  An instance of C5: the submission that repeats the first sample complaint is stored as
  Rejected, unassigned, flagged by System.
\<close>

theorem duplicate_created_rejected_witness:
  "integrity_verdict sample_db sample_env duplicate_request
     = \<lparr>v_isDuplicate = True, v_duplicateOf = Some ''TNSMP-000001-001'', v_isFake = False,
        v_remarks = ''75% similar to existing complaint TNSMP-000001-001''\<rparr>
   \<and> (\<exists>c resp. create_complaint sample_users sample_db 60 sample_citizen sample_env duplicate_request
                     = (Created resp, sample_db @ [c])
         \<and> status c = ''Rejected'' \<and> assignedTo c = None \<and> assignedToName c = None
         \<and> rs_assignedTo resp = None
         \<and> statusHistory c =
              [\<lparr>se_status = ''Rejected'', se_timestamp = 60, se_updatedBy = None,
                se_updatedByName = ''System'',
                se_note = ''Flagged as duplicate of TNSMP-000001-001''\<rparr>])"
proof -
  note v = verdict_duplicate
  have h: "truthy (rq_photo duplicate_request) \<and> truthy (rq_description duplicate_request)
     \<and> \<not> v_isFake (integrity_verdict sample_db sample_env duplicate_request)
     \<and> resolved_department sample_env duplicate_request \<in> set department_enum
     \<and> ev_ticketId sample_env \<notin> set (map ticketId sample_db)
     \<and> ev_new_id sample_env \<notin> set (map c_id sample_db)"
  proof (intro conjI)
    show "truthy (rq_photo duplicate_request)" "truthy (rq_description duplicate_request)"
      by (simp_all add: duplicate_request_def sample_request_resolved)
    show "\<not> v_isFake (integrity_verdict sample_db sample_env duplicate_request)"
      by (simp add: v)
    show "resolved_department sample_env duplicate_request \<in> set department_enum"
      by (simp add: duplicate_request_def sample_request_resolved department_enum_def)
  qed (rule sample_fresh)+
  note inst = duplicate_created_rejected
      [where rq = duplicate_request and db = sample_db and env = sample_env
         and users = sample_users and now = 60 and usr = sample_citizen]
  from mp [OF inst h] obtain c resp
    where cr: "create_complaint sample_users sample_db 60 sample_citizen sample_env duplicate_request
                 = (Created resp, sample_db @ [c])"
      and d: "v_isDuplicate (integrity_verdict sample_db sample_env duplicate_request) \<longrightarrow>
              status c = ''Rejected'' \<and> assignedTo c = None \<and> assignedToName c = None
              \<and> rs_assignedTo resp = None
              \<and> statusHistory c =
                  [\<lparr>se_status = ''Rejected'', se_timestamp = 60, se_updatedBy = None,
                    se_updatedByName = ''System'',
                    se_note = ''Flagged as duplicate of ''
                                @ show_nullable (v_duplicateOf (integrity_verdict sample_db sample_env duplicate_request))\<rparr>]
              \<and> (\<forall>users'. create_complaint users' sample_db 60 sample_citizen sample_env duplicate_request
                             = create_complaint sample_users sample_db 60 sample_citizen sample_env duplicate_request)"
    by (elim exE conjE)
  have isdup: "v_isDuplicate (integrity_verdict sample_db sample_env duplicate_request)"
    by (simp add: v)
  from mp [OF d isdup] have "status c = ''Rejected'' \<and> assignedTo c = None \<and> assignedToName c = None
              \<and> rs_assignedTo resp = None
              \<and> statusHistory c =
                  [\<lparr>se_status = ''Rejected'', se_timestamp = 60, se_updatedBy = None,
                    se_updatedByName = ''System'',
                    se_note = ''Flagged as duplicate of ''
                                @ show_nullable (v_duplicateOf (integrity_verdict sample_db sample_env duplicate_request))\<rparr>]"
    by (elim conjE, intro conjI)
  then have "status c = ''Rejected'' \<and> assignedTo c = None \<and> assignedToName c = None
         \<and> rs_assignedTo resp = None
         \<and> statusHistory c =
              [\<lparr>se_status = ''Rejected'', se_timestamp = 60, se_updatedBy = None,
                se_updatedByName = ''System'',
                se_note = ''Flagged as duplicate of TNSMP-000001-001''\<rparr>]"
    by (simp add: v show_nullable_def)
  with cr have "\<exists>c resp. create_complaint sample_users sample_db 60 sample_citizen sample_env duplicate_request
                     = (Created resp, sample_db @ [c])
         \<and> status c = ''Rejected'' \<and> assignedTo c = None \<and> assignedToName c = None
         \<and> rs_assignedTo resp = None
         \<and> statusHistory c =
              [\<lparr>se_status = ''Rejected'', se_timestamp = 60, se_updatedBy = None,
                se_updatedByName = ''System'',
                se_note = ''Flagged as duplicate of TNSMP-000001-001''\<rparr>]"
    by (intro exI [of _ c] exI [of _ resp] conjI) (elim conjE, assumption)+
  with v show ?thesis by (intro conjI)
qed

lemma providers_electricity: "providers_of sample_users ''Electricity'' = [asha, bala]"
  by (simp add: providers_of_def sample_users_def asha_def bala_def chitra_def)

lemma providers_transport: "providers_of sample_users ''Transport'' = []"
  by (simp add: providers_of_def sample_users_def asha_def bala_def chitra_def)

lemma sample_loads: "activeLoad sample_db (u_id asha) = 2" "activeLoad sample_db (u_id bala) = 0"
  by (simp_all add: activeLoad_def sample_db_def first_complaint_def second_complaint_def
      third_complaint_def sample_complaint_def asha_def bala_def)

lemma assign_electricity:
  "assignProviderForDepartment sample_users sample_db ''Electricity'' = Some (bala, 0)"
  by (simp add: assignProviderForDepartment_def providers_electricity sample_loads Let_def)

text \<open>
  An instance of C6: in Electricity the balancer picks the idle provider, the second in the
  listing; a complaint for Transport, which has no provider, is created unassigned.
\<close>

theorem assign_least_loaded_witness:
  "assignProviderForDepartment sample_users sample_db ''Electricity'' = Some (bala, 0)
   \<and> bala \<in> set sample_users \<and> u_department bala = ''Electricity''
   \<and> activeLoad sample_db (u_id bala) = 0
   \<and> providers_of sample_users (resolved_department sample_env transport_request) = []
   \<and> (\<exists>c resp. create_complaint sample_users sample_db 60 sample_citizen sample_env transport_request
                    = (Created resp, sample_db @ [c])
          \<and> assignedTo c = None \<and> assignedToName c = None \<and> rs_assignedTo resp = None)"
proof -
  note inst = assign_least_loaded
      [where users = sample_users and db = sample_db and dept = "''Electricity''"
         and env = sample_env and rq = transport_request and now = 60 and usr = sample_citizen]
  from inst have B: "\<forall>p l. assignProviderForDepartment sample_users sample_db ''Electricity'' = Some (p, l) \<longrightarrow>
         p \<in> set sample_users \<and> u_role p = ''provider'' \<and> u_department p = ''Electricity''
         \<and> l = activeLoad sample_db (u_id p)
         \<and> (\<forall>q \<in> set (providers_of sample_users ''Electricity''). l \<le> activeLoad sample_db (u_id q))
         \<and> ((\<exists>q \<in> set (providers_of sample_users ''Electricity''). activeLoad sample_db (u_id q) = 0) \<longrightarrow> l = 0)
         \<and> find (\<lambda>q. activeLoad sample_db (u_id q) = l) (providers_of sample_users ''Electricity'') = Some p"
    by (elim conjE)
  from inst have C: "providers_of sample_users (resolved_department sample_env transport_request) = []
       \<and> truthy (rq_photo transport_request) \<and> truthy (rq_description transport_request)
       \<and> \<not> v_isFake (integrity_verdict sample_db sample_env transport_request)
       \<and> resolved_department sample_env transport_request \<in> set department_enum
       \<and> ev_ticketId sample_env \<notin> set (map ticketId sample_db)
       \<and> ev_new_id sample_env \<notin> set (map c_id sample_db) \<longrightarrow>
         (\<exists>c resp. create_complaint sample_users sample_db 60 sample_citizen sample_env transport_request
                      = (Created resp, sample_db @ [c])
            \<and> assignedTo c = None \<and> assignedToName c = None \<and> rs_assignedTo resp = None)"
    by (elim conjE)
  have np: "providers_of sample_users (resolved_department sample_env transport_request) = []"
    by (simp add: transport_request_def sample_request_resolved providers_transport)
  have h: "providers_of sample_users (resolved_department sample_env transport_request) = []
       \<and> truthy (rq_photo transport_request) \<and> truthy (rq_description transport_request)
       \<and> \<not> v_isFake (integrity_verdict sample_db sample_env transport_request)
       \<and> resolved_department sample_env transport_request \<in> set department_enum
       \<and> ev_ticketId sample_env \<notin> set (map ticketId sample_db)
       \<and> ev_new_id sample_env \<notin> set (map c_id sample_db)"
  proof (intro conjI)
    show "providers_of sample_users (resolved_department sample_env transport_request) = []"
      by (rule np)
    show "truthy (rq_photo transport_request)" "truthy (rq_description transport_request)"
      by (simp_all add: transport_request_def sample_request_resolved)
    show "\<not> v_isFake (integrity_verdict sample_db sample_env transport_request)"
      by (simp add: verdict_transport)
    show "resolved_department sample_env transport_request \<in> set department_enum"
      by (simp add: transport_request_def sample_request_resolved department_enum_def)
  qed (rule sample_fresh)+
  note created = mp [OF C h]
  from B assign_electricity
  have "bala \<in> set sample_users \<and> u_role bala = ''provider'' \<and> u_department bala = ''Electricity''
         \<and> 0 = activeLoad sample_db (u_id bala)
         \<and> (\<forall>q \<in> set (providers_of sample_users ''Electricity''). 0 \<le> activeLoad sample_db (u_id q))
         \<and> ((\<exists>q \<in> set (providers_of sample_users ''Electricity''). activeLoad sample_db (u_id q) = 0) \<longrightarrow> (0::nat) = 0)
         \<and> find (\<lambda>q. activeLoad sample_db (u_id q) = 0) (providers_of sample_users ''Electricity'') = Some bala"
    by (elim allE impE) assumption+
  then have b: "bala \<in> set sample_users" "u_department bala = ''Electricity''"
    "activeLoad sample_db (u_id bala) = 0"
    by simp_all
  from assign_electricity b np created show ?thesis by (intro conjI)
qed

text \<open>
  An instance of C10: the keyboard-mashing submission is answered with status 400 and
  nothing is stored; the collection after a first submission is reachable and holds no fake.
\<close>

theorem stored_never_fake_witness:
  "v_isFake (integrity_verdict sample_db sample_env mashed_request)
   \<and> create_complaint sample_users sample_db 60 sample_citizen sample_env mashed_request
       = (FakeRejected
            (''This complaint appears to be invalid or fake. AI Remarks: ''
               @ ''Description appears to be gibberish (only 0% recognizable words)'')
            ''Description appears to be gibberish (only 0% recognizable words)'', sample_db)
   \<and> status_code (fst (create_complaint sample_users sample_db 60 sample_citizen sample_env
                          mashed_request)) = 400
   \<and> reachable (snd (create_complaint sample_users [] 60 sample_citizen sample_env transport_request))
   \<and> list_all (\<lambda>c. \<not> isFake c)
         (snd (create_complaint sample_users [] 60 sample_citizen sample_env transport_request))"
proof -
  note inst = stored_never_fake
      [where users = sample_users and db = sample_db and env = sample_env
         and rq = mashed_request and now = 60 and usr = sample_citizen]
  from inst have A: "truthy (rq_photo mashed_request) \<and> truthy (rq_description mashed_request)
        \<and> v_isFake (integrity_verdict sample_db sample_env mashed_request) \<longrightarrow>
      create_complaint sample_users sample_db 60 sample_citizen sample_env mashed_request
        = (FakeRejected
             (''This complaint appears to be invalid or fake. AI Remarks: ''
                @ v_remarks (integrity_verdict sample_db sample_env mashed_request))
             (v_remarks (integrity_verdict sample_db sample_env mashed_request)), sample_db)
      \<and> status_code (fst (create_complaint sample_users sample_db 60 sample_citizen sample_env
                             mashed_request)) = 400"
    by (elim conjE)
  have fk: "v_isFake (integrity_verdict sample_db sample_env mashed_request)"
    by (simp add: verdict_mashed)
  have h: "truthy (rq_photo mashed_request) \<and> truthy (rq_description mashed_request)
        \<and> v_isFake (integrity_verdict sample_db sample_env mashed_request)"
  proof (intro conjI)
    show "truthy (rq_photo mashed_request)" "truthy (rq_description mashed_request)"
      by (simp_all add: mashed_request_def sample_request_resolved)
  qed (rule fk)
  have vr: "v_remarks (integrity_verdict sample_db sample_env mashed_request)
              = ''Description appears to be gibberish (only 0% recognizable words)''"
    by (simp add: verdict_mashed)
  note rs = mp [OF A h, unfolded vr]
  note r = conjunct1 [OF rs] and st = conjunct2 [OF rs]
  let ?db1 = "snd (create_complaint sample_users [] 60 sample_citizen sample_env transport_request)"
  have re: "reachable ?db1" by (intro reach_create reach_empty)
  note closed = stored_never_fake [where db = ?db1, THEN conjunct2, THEN conjunct2]
  from mp [OF closed re] have "\<forall>c \<in> set ?db1. \<not> isFake c" .
  then have nf: "list_all (\<lambda>c. \<not> isFake c) ?db1" by (simp only: list_all_iff)
  from fk r st re nf show ?thesis by (intro conjI)
qed

section \<open>Priority: properties\<close>

lemma add_hits_count:
  "add_hits text level kws score = score + level_weight level * of_nat (hits text kws)"
  by (induction kws arbitrary: score) (simp_all add: hits_def algebra_simps)

lemma keyword_scores_eq:
  "keyword_scores text =
     [(''Critical'', 3 * of_nat (hits text Critical_keywords)),
      (''High'', 2 * of_nat (hits text High_keywords)),
      (''Medium'', of_nat (hits text Medium_keywords)),
      (''Low'', of_nat (hits text Low_keywords))]"
  by (simp add: keyword_scores_def PRIORITY_KEYWORDS_def add_hits_count level_weight_def)

lemma boosts_eq:
  "map_of deptBoosts dept = None \<Longrightarrow> critical_boost dept = 0 \<and> high_boost dept = 0"
  "map_of deptBoosts dept = Some b \<Longrightarrow> critical_boost dept = b \<and> high_boost dept = b * (1 / 2)"
  by (auto simp: deptBoosts_def critical_boost_def high_boost_def split: if_splits)

lemma boosted_scores_eq:
  "boosted_scores dept [(''Critical'', c), (''High'', h), (''Medium'', m), (''Low'', l)]
     = [(''Critical'', c + critical_boost dept), (''High'', h + high_boost dept),
        (''Medium'', m), (''Low'', l)]"
proof (cases "map_of deptBoosts dept")
  case None
  with boosts_eq(1) [OF None] show ?thesis by (simp add: boosted_scores_def)
next
  case (Some b)
  with boosts_eq(2) [OF Some] show ?thesis by (simp add: boosted_scores_def)
qed

lemma hd_sort_desc4:
  fixes c h m l :: rat
  shows "hd (sort_desc [(a1, c), (a2, h), (a3, m), (a4, l)])
           = (if c \<ge> h \<and> c \<ge> m \<and> c \<ge> l then (a1, c)
              else if h \<ge> m \<and> h \<ge> l then (a2, h)
              else if m \<ge> l then (a3, m) else (a4, l))"
  by (auto simp: sort_desc_def)


lemma localPrioritize_spec: "localPrioritize descr dept = priority_by_spec descr dept"
proof -
  define lowered where "lowered = toLowerCase (descr @ '' '' @ dept)"
  define c where "c = 3 * of_nat (hits lowered Critical_keywords) + critical_boost dept"
  define h where "h = 2 * of_nat (hits lowered High_keywords) + high_boost dept"
  define m where "m = (of_nat (hits lowered Medium_keywords) :: rat)"
  define l where "l = (of_nat (hits lowered Low_keywords) :: rat)"
  have nonneg: "0 \<le> c" "0 \<le> h" "0 \<le> m" "0 \<le> l"
    by (simp_all add: c_def h_def m_def l_def critical_boost_def high_boost_def)
  have scores: "boosted_scores dept (keyword_scores lowered)
                  = [(''Critical'', c), (''High'', h), (''Medium'', m), (''Low'', l)]"
    by (simp only: keyword_scores_eq boosted_scores_eq c_def h_def m_def l_def)
  have loc: "localPrioritize descr dept
      = (if snd (hd (sort_desc [(''Critical'', c), (''High'', h), (''Medium'', m), (''Low'', l)])) > 0
         then fst (hd (sort_desc [(''Critical'', c), (''High'', h), (''Medium'', m), (''Low'', l)]))
         else ''Medium'')"
    unfolding localPrioritize_def Let_def lowered_def [symmetric] scores ..
  have spec: "priority_by_spec descr dept
      = (if c = 0 \<and> h = 0 \<and> m = 0 \<and> l = 0 then ''Medium''
         else if c \<ge> h \<and> c \<ge> m \<and> c \<ge> l then ''Critical''
         else if h \<ge> m \<and> h \<ge> l then ''High''
         else if m \<ge> l then ''Medium''
         else ''Low'')"
    unfolding priority_by_spec_def Let_def lowered_def [symmetric] c_def h_def m_def l_def ..
  show ?thesis
    unfolding loc spec hd_sort_desc4 using nonneg by auto
qed

text \<open>
  C7. The local priority is the function of the specification of description and department
  (keyword hits weighted 3, 2, 1 and 1, the department boosts, the highest score with the
  precedence Critical, High, Medium, Low, and Medium when every score is zero); the priority
  assigner returns it whenever the gateway gave nothing or an answer without any of the
  four priority words. Being a function of its two arguments, it gives equal results on
  equal inputs.
\<close>

theorem localPrioritize_by_spec:
  "localPrioritize descr dept = priority_by_spec descr dept
   \<and> (\<not> truthy response
        \<or> find (\<lambda>p. str_includes (the response) p) [''Critical'', ''High'', ''Medium'', ''Low''] = None
       \<longrightarrow> prioritizeComplaint response descr dept = priority_by_spec descr dept)"
  by (auto simp: prioritizeComplaint_def localPrioritize_spec)

lemma spec_fire: "priority_by_spec ''fire'' ''Revenue'' = ''Critical''"
  by code_simp

text \<open>An instance: a fire outranks everything else.\<close>

theorem localPrioritize_by_spec_witness:
  "localPrioritize ''fire'' ''Revenue'' = ''Critical''
   \<and> prioritizeComplaint None ''fire'' ''Revenue'' = ''Critical''"
proof -
  note inst = localPrioritize_by_spec [of "''fire''" "''Revenue''" None]
  have "\<not> truthy None
        \<or> find (\<lambda>p. str_includes (the None) p) [''Critical'', ''High'', ''Medium'', ''Low''] = None"
    by (simp add: truthy_def)
  from conjunct1 [OF inst] mp [OF conjunct2 [OF inst] this] show ?thesis
    by (simp only: spec_fire simp_thms)
qed

end
